theory Spec2Isabelle
  imports Main
begin

section \<open>JavaScript numbers\<close>

text \<open>
  The actions compute \<^verbatim>\<open>amount * 100\<close> on JavaScript numbers, which are IEEE 754
  binary64 values. A finite value is kept as a signed mantissa and a binary exponent,
  \<open>Fin m e\<close> standing for \<open>m * 2 ^ e\<close>, in the canonical form where \<open>m\<close> is odd
  (or \<open>m = 0\<close> and \<open>e = 0\<close>), so that equal values are equal terms. The sign of zero
  is not kept: no comparison of the actions tells \<open>-0\<close> from \<open>0\<close>.
\<close>

datatype jsnum = NaN | PosInf | NegInf | Fin int int

fun bitlen :: "nat \<Rightarrow> nat" where
  "bitlen n = (if n = 0 then 0 else Suc (bitlen (n div 2)))"

declare bitlen.simps [simp del]

fun canon :: "nat \<Rightarrow> int \<Rightarrow> nat \<times> int" where
  "canon m e = (if m = 0 then (0, 0) else if even m then canon (m div 2) (e + 1) else (m, e))"

declare canon.simps [simp del]

text \<open>\<open>scaled_div p d s\<close> is the floor of \<open>p * 2 ^ s / d\<close>, \<open>scaled_rem\<close> the
  numerator left over and \<open>scaled_den\<close> the denominator it is measured against.\<close>

definition scaled_num :: "nat \<Rightarrow> int \<Rightarrow> nat" where
  "scaled_num p s = (if 0 \<le> s then p * 2 ^ nat s else p)"

definition scaled_den :: "nat \<Rightarrow> int \<Rightarrow> nat" where
  "scaled_den d s = (if 0 \<le> s then d else d * 2 ^ nat (- s))"

definition scaled_div :: "nat \<Rightarrow> nat \<Rightarrow> int \<Rightarrow> nat" where
  "scaled_div p d s = scaled_num p s div scaled_den d s"

definition scaled_rem :: "nat \<Rightarrow> nat \<Rightarrow> int \<Rightarrow> nat" where
  "scaled_rem p d s = scaled_num p s mod scaled_den d s"

text \<open>Round to nearest, ties to even, on the integer grid.\<close>

definition round_even :: "nat \<Rightarrow> nat \<Rightarrow> nat \<Rightarrow> nat" where
  "round_even q r den =
     (if 2 * r < den then q
      else if den < 2 * r then q + 1
      else if even q then q else q + 1)"

text \<open>
  \<open>round_frac p d ex\<close> is the binary64 value nearest to \<open>p / d * 2 ^ ex\<close> (\<open>d > 0\<close>),
  or \<open>None\<close> when that value is beyond the largest finite number. The quotient is
  scaled to 53 significant bits, or fewer in the subnormal range, where the unit in the
  last place cannot go below \<open>2 ^ -1074\<close>.
\<close>

definition round_frac :: "nat \<Rightarrow> nat \<Rightarrow> int \<Rightarrow> (nat \<times> int) option" where
  "round_frac p d ex =
     (if p = 0 then Some (0, 0)
      else
        let t = int (bitlen p) - int (bitlen d);
            s0 = 53 - t;
            s1 = (if 2 ^ 53 \<le> scaled_div p d s0 then s0 - 1 else s0);
            s = min s1 (ex + 1074);
            n = round_even (scaled_div p d s) (scaled_rem p d s) (scaled_den d s);
            e = ex - s
        in if 1024 < int (bitlen n) + e then None else Some (canon n e))"

definition mk_num :: "bool \<Rightarrow> (nat \<times> int) option \<Rightarrow> jsnum" where
  "mk_num neg r =
     (case r of
        None \<Rightarrow> (if neg then NegInf else PosInf)
      | Some (m, e) \<Rightarrow> Fin (if neg then - int m else int m) e)"

text \<open>The value of the decimal numeral \<open>n * 10 ^ k\<close>, rounded.\<close>

definition dec_to_num :: "bool \<Rightarrow> nat \<Rightarrow> int \<Rightarrow> jsnum" where
  "dec_to_num neg n k =
     mk_num neg (if 0 \<le> k then round_frac (n * 10 ^ nat k) 1 0
                 else round_frac n (10 ^ nat (- k)) 0)"

text \<open>The operator \<^verbatim>\<open>*\<close> on numbers.\<close>

fun js_mul :: "jsnum \<Rightarrow> jsnum \<Rightarrow> jsnum" where
  "js_mul NaN _ = NaN"
| "js_mul _ NaN = NaN"
| "js_mul (Fin m1 e1) (Fin m2 e2) =
     mk_num ((m1 < 0) \<noteq> (m2 < 0)) (round_frac (nat \<bar>m1\<bar> * nat \<bar>m2\<bar>) 1 (e1 + e2))"
| "js_mul (Fin m e) PosInf = (if m = 0 then NaN else if m < 0 then NegInf else PosInf)"
| "js_mul (Fin m e) NegInf = (if m = 0 then NaN else if m < 0 then PosInf else NegInf)"
| "js_mul PosInf (Fin m e) = (if m = 0 then NaN else if m < 0 then NegInf else PosInf)"
| "js_mul NegInf (Fin m e) = (if m = 0 then NaN else if m < 0 then PosInf else NegInf)"
| "js_mul PosInf PosInf = PosInf"
| "js_mul PosInf NegInf = NegInf"
| "js_mul NegInf PosInf = NegInf"
| "js_mul NegInf NegInf = PosInf"

text \<open>The comparison \<^verbatim>\<open>x <= y\<close>, false when either side is \<open>NaN\<close>.\<close>

fun js_le :: "jsnum \<Rightarrow> jsnum \<Rightarrow> bool" where
  "js_le NaN _ = False"
| "js_le _ NaN = False"
| "js_le NegInf _ = True"
| "js_le _ PosInf = True"
| "js_le PosInf _ = False"
| "js_le _ NegInf = False"
| "js_le (Fin m1 e1) (Fin m2 e2) =
     (let e = min e1 e2 in m1 * 2 ^ nat (e1 - e) \<le> m2 * 2 ^ nat (e2 - e))"

text \<open>A number is an integer when it is finite with no fractional bits.\<close>

fun js_is_integer :: "jsnum \<Rightarrow> bool" where
  "js_is_integer (Fin m e) = (m = 0 \<or> 0 \<le> e)"
| "js_is_integer _ = False"

definition js_of_nat :: "nat \<Rightarrow> jsnum" where
  "js_of_nat n = mk_num False (round_frac n 1 0)"


section \<open>The coercion \<^verbatim>\<open>Number(value)\<close>\<close>

text \<open>
  The JavaScript values the actions handle: \<^verbatim>\<open>undefined\<close>, \<^verbatim>\<open>null\<close>,
  strings, numbers and the \<^verbatim>\<open>File\<close> objects a form may carry.
\<close>

datatype jsval = Undefined | Null | Str string | Num jsnum | File

text \<open>
  Strings are converted by the grammar of numeric string literals: surrounding white
  space is dropped, the empty string is \<open>0\<close>, then come the prefixed integers
  (\<^verbatim>\<open>0x\<close>, \<^verbatim>\<open>0o\<close>, \<^verbatim>\<open>0b\<close>, unsigned) and the signed decimal
  literals with an optional fraction and exponent, and \<^verbatim>\<open>Infinity\<close>. Anything
  else is \<open>NaN\<close>. Strings are byte lists here, so only the ASCII white space
  characters are recognised.
\<close>

definition is_ws :: "char \<Rightarrow> bool" where
  "is_ws c = (c \<in> set [CHR '' '', CHR 0x09, CHR 0x0A, CHR 0x0B, CHR 0x0C, CHR 0x0D])"

definition trim :: "string \<Rightarrow> string" where
  "trim s = rev (dropWhile is_ws (rev (dropWhile is_ws s)))"

definition hex_table :: "(char \<times> nat) list" where
  "hex_table =
     [(CHR ''0'', 0), (CHR ''1'', 1), (CHR ''2'', 2), (CHR ''3'', 3), (CHR ''4'', 4),
      (CHR ''5'', 5), (CHR ''6'', 6), (CHR ''7'', 7), (CHR ''8'', 8), (CHR ''9'', 9),
      (CHR ''a'', 10), (CHR ''b'', 11), (CHR ''c'', 12), (CHR ''d'', 13), (CHR ''e'', 14),
      (CHR ''f'', 15), (CHR ''A'', 10), (CHR ''B'', 11), (CHR ''C'', 12), (CHR ''D'', 13),
      (CHR ''E'', 14), (CHR ''F'', 15)]"

definition digit_of :: "nat \<Rightarrow> char \<Rightarrow> nat option" where
  "digit_of base c =
     (case map_of hex_table c of
        None \<Rightarrow> None
      | Some v \<Rightarrow> if v < base then Some v else None)"

definition is_digit :: "nat \<Rightarrow> char \<Rightarrow> bool" where
  "is_digit base c = (digit_of base c \<noteq> None)"

definition digits_val :: "nat \<Rightarrow> string \<Rightarrow> nat" where
  "digits_val base s = foldl (\<lambda>a c. base * a + (case digit_of base c of None \<Rightarrow> 0 | Some v \<Rightarrow> v)) 0 s"

definition all_digits :: "nat \<Rightarrow> string \<Rightarrow> bool" where
  "all_digits base s = (s \<noteq> [] \<and> list_all (is_digit base) s)"

text \<open>The exponent part: \<^verbatim>\<open>e\<close> or \<^verbatim>\<open>E\<close>, an optional sign, digits.\<close>

definition exponent_part :: "string \<Rightarrow> int option" where
  "exponent_part s =
     (case s of
        [] \<Rightarrow> Some 0
      | c # t \<Rightarrow>
          if c = CHR ''e'' \<or> c = CHR ''E'' then
            (case t of
               [] \<Rightarrow> None
             | d # u \<Rightarrow>
                 if d = CHR ''-'' then
                   (if all_digits 10 u then Some (- int (digits_val 10 u)) else None)
                 else if d = CHR ''+'' then
                   (if all_digits 10 u then Some (int (digits_val 10 u)) else None)
                 else (if all_digits 10 t then Some (int (digits_val 10 t)) else None))
          else None)"

text \<open>An unsigned decimal literal, as the pair \<open>(n, k)\<close> of its value \<open>n * 10 ^ k\<close>.\<close>

definition unsigned_decimal :: "string \<Rightarrow> (nat \<times> int) option" where
  "unsigned_decimal s =
     (let ip = takeWhile (is_digit 10) s;
          r1 = dropWhile (is_digit 10) s;
          fp = (case r1 of
                  [] \<Rightarrow> []
                | c # t \<Rightarrow> if c = CHR ''.'' then takeWhile (is_digit 10) t else []);
          r2 = (case r1 of
                  [] \<Rightarrow> []
                | c # t \<Rightarrow> if c = CHR ''.'' then dropWhile (is_digit 10) t else r1)
      in if ip = [] \<and> fp = [] then None
         else (case exponent_part r2 of
                 None \<Rightarrow> None
               | Some x \<Rightarrow> Some (digits_val 10 (ip @ fp), x - int (length fp))))"

definition signed_decimal :: "bool \<Rightarrow> string \<Rightarrow> jsnum" where
  "signed_decimal neg s =
     (if s = ''Infinity'' then (if neg then NegInf else PosInf)
      else (case unsigned_decimal s of
              None \<Rightarrow> NaN
            | Some (n, k) \<Rightarrow> dec_to_num neg n k))"

definition prefixed_integer :: "nat \<Rightarrow> string \<Rightarrow> jsnum" where
  "prefixed_integer base s = (if all_digits base s then js_of_nat (digits_val base s) else NaN)"

definition string_to_number :: "string \<Rightarrow> jsnum" where
  "string_to_number str =
     (case trim str of
        [] \<Rightarrow> Fin 0 0
      | c # t \<Rightarrow>
          if c = CHR ''+'' then signed_decimal False t
          else if c = CHR ''-'' then signed_decimal True t
          else if c = CHR ''0'' \<and> t \<noteq> [] \<and> hd t \<in> set ''xX'' then prefixed_integer 16 (tl t)
          else if c = CHR ''0'' \<and> t \<noteq> [] \<and> hd t \<in> set ''oO'' then prefixed_integer 8 (tl t)
          else if c = CHR ''0'' \<and> t \<noteq> [] \<and> hd t \<in> set ''bB'' then prefixed_integer 2 (tl t)
          else signed_decimal False (c # t))"

text \<open>\<^verbatim>\<open>Number(null)\<close> is \<open>0\<close>, \<^verbatim>\<open>Number(undefined)\<close> is \<open>NaN\<close>; a file
  object converts through the string \<^verbatim>\<open>[object File]\<close>, which is no numeral.\<close>

fun Number :: "jsval \<Rightarrow> jsnum" where
  "Number Undefined = NaN"
| "Number Null = Fin 0 0"
| "Number (Str s) = string_to_number s"
| "Number (Num n) = n"
| "Number File = NaN"

text \<open>The operator \<^verbatim>\<open>*\<close> on values converts both operands to numbers.\<close>

definition js_times :: "jsval \<Rightarrow> jsval \<Rightarrow> jsval" where
  "js_times a b = Num (js_mul (Number a) (Number b))"


section \<open>Form data\<close>

text \<open>A submitted form is a list of named entries, each a string or a file;
  \<^verbatim>\<open>formData.get(name)\<close> is the first entry of that name, or \<^verbatim>\<open>null\<close>.\<close>

datatype form_entry = Text string | Blob

type_synonym FormData = "(string \<times> form_entry) list"

fun entry_value :: "form_entry \<Rightarrow> jsval" where
  "entry_value (Text s) = Str s"
| "entry_value Blob = File"

definition formData_get :: "FormData \<Rightarrow> string \<Rightarrow> jsval" where
  "formData_get formData name =
     (case map_of formData name of None \<Rightarrow> Null | Some e \<Rightarrow> entry_value e)"

text \<open>An object literal is kept as the list of its properties; reading a property that
  is not there gives \<^verbatim>\<open>undefined\<close>.\<close>

type_synonym object = "(string \<times> jsval) list"

definition get_prop :: "object \<Rightarrow> string \<Rightarrow> jsval" where
  "get_prop obj k = (case map_of obj k of None \<Rightarrow> Undefined | Some v \<Rightarrow> v)"


section \<open>Schema validation\<close>

text \<open>
  The schemas are built with the zod library (version 3, whose options
  \<^verbatim>\<open>invalid_type_error\<close> the schema uses). The part of the library the actions
  rely on is modelled here: string, coerced-number and enumeration schemas, the
  \<^verbatim>\<open>gt\<close> check, object schemas with \<^verbatim>\<open>omit\<close>, the issues a failed parse
  reports and \<^verbatim>\<open>flatten().fieldErrors\<close>.
\<close>

datatype issue_code = invalid_type | too_small | invalid_enum_value

text \<open>An issue: its code, the path of the value it is about, and its message.\<close>

datatype issue = Issue issue_code "string list" string

fun issue_path :: "issue \<Rightarrow> string list" where
  "issue_path (Issue c p m) = p"

fun issue_message :: "issue \<Rightarrow> string" where
  "issue_message (Issue c p m) = m"

text \<open>\<open>Gt v m\<close> is \<^verbatim>\<open>.gt(v, { message: m })\<close>.\<close>

datatype zod_check = Gt jsnum string

text \<open>\<open>ZodString e\<close> is \<^verbatim>\<open>z.string({ invalid_type_error: e })\<close>, \<open>ZodCoerceNumber cs\<close> is
  \<^verbatim>\<open>z.coerce.number()\<close> followed by the checks \<open>cs\<close>, and \<open>ZodEnum vs e\<close> is
  \<^verbatim>\<open>z.enum(vs, { invalid_type_error: e })\<close>; \<open>None\<close> stands for an option not given.\<close>

datatype zod_type =
    ZodString "string option"
  | ZodCoerceNumber "zod_check list"
  | ZodEnum "string list" "string option"

fun getParsedType :: "jsval \<Rightarrow> string" where
  "getParsedType Undefined = ''undefined''"
| "getParsedType Null = ''null''"
| "getParsedType (Str s) = ''string''"
| "getParsedType (Num n) = (if n = NaN then ''nan'' else ''number'')"
| "getParsedType File = ''object''"

fun join :: "string \<Rightarrow> string list \<Rightarrow> string" where
  "join sep [] = []"
| "join sep [x] = x"
| "join sep (x # y # ys) = x @ sep @ join sep (y # ys)"

definition joinValues :: "string list \<Rightarrow> string" where
  "joinValues vs = join '' | '' (map (\<lambda>v. [CHR 0x27] @ v @ [CHR 0x27]) vs)"

text \<open>The message of an \<open>invalid_type\<close> issue: \<^verbatim>\<open>Required\<close> for a missing value,
  else the schema's \<^verbatim>\<open>invalid_type_error\<close> when it has one, else the default.\<close>

definition invalid_type_message :: "string option \<Rightarrow> string \<Rightarrow> jsval \<Rightarrow> string" where
  "invalid_type_message ite expected v =
     (if v = Undefined then ''Required''
      else (case ite of
              Some m \<Rightarrow> m
            | None \<Rightarrow> ''Expected '' @ expected @ '', received '' @ getParsedType v))"

fun run_check :: "jsnum \<Rightarrow> zod_check \<Rightarrow> (issue_code \<times> string) list" where
  "run_check n (Gt v m) = (if js_le n v then [(too_small, m)] else [])"

text \<open>Parsing one value against one schema: the issues, or the parsed value.\<close>

fun parse_type :: "zod_type \<Rightarrow> jsval \<Rightarrow> (issue_code \<times> string) list + jsval" where
  "parse_type (ZodString ite) v =
     (case v of
        Str s \<Rightarrow> Inr (Str s)
      | _ \<Rightarrow> Inl [(invalid_type, invalid_type_message ite ''string'' v)])"
| "parse_type (ZodCoerceNumber checks) v =
     (let n = Number v
      in if n = NaN then Inl [(invalid_type, ''Expected number, received nan'')]
         else (case concat (map (run_check n) checks) of
                 [] \<Rightarrow> Inr (Num n)
               | i # is \<Rightarrow> Inl (i # is)))"
| "parse_type (ZodEnum vs ite) v =
     (case v of
        Str s \<Rightarrow>
          if s \<in> set vs then Inr (Str s)
          else Inl [(invalid_enum_value,
                     ''Invalid enum value. Expected '' @ joinValues vs @ '', received ''
                       @ [CHR 0x27] @ s @ [CHR 0x27])]
      | _ \<Rightarrow> Inl [(invalid_type, invalid_type_message ite (joinValues vs) v)])"

text \<open>An object schema is the list of its keys with their schemas. Every key is parsed,
  whatever the other keys gave: the issues of all of them are collected, in the order of
  the keys.\<close>

type_synonym shape = "(string \<times> zod_type) list"

definition omit :: "shape \<Rightarrow> string list \<Rightarrow> shape" where
  "omit sh ks = filter (\<lambda>(k, ty). k \<notin> set ks) sh"

fun parse_object :: "shape \<Rightarrow> object \<Rightarrow> issue list \<times> object" where
  "parse_object [] input = ([], [])"
| "parse_object ((k, ty) # sh) input =
     (let (is, data) = parse_object sh input
      in case parse_type ty (get_prop input k) of
           Inl errs \<Rightarrow> (map (\<lambda>(c, m). Issue c [k] m) errs @ is, data)
         | Inr v \<Rightarrow> (is, (k, v) # data))"

text \<open>\<^verbatim>\<open>safeParse\<close>: \<open>Inl\<close> carries the issues of the \<^verbatim>\<open>ZodError\<close>, \<open>Inr\<close> the data.
  \<^verbatim>\<open>parse\<close> computes the same and throws the error; the throw is written in the
  actions.\<close>

definition safeParse :: "shape \<Rightarrow> object \<Rightarrow> issue list + object" where
  "safeParse sh input =
     (case parse_object sh input of
        ([], data) \<Rightarrow> Inr data
      | (i # is, data) \<Rightarrow> Inl (i # is))"

text \<open>\<^verbatim>\<open>error.flatten().fieldErrors\<close>: the messages of the issues, grouped under the
  first element of their path, in order of appearance.\<close>

fun add_field_error :: "string \<Rightarrow> string \<Rightarrow> (string \<times> string list) list \<Rightarrow> (string \<times> string list) list" where
  "add_field_error k m [] = [(k, [m])]"
| "add_field_error k m ((k', ms) # rest) =
     (if k = k' then (k', ms @ [m]) # rest else (k', ms) # add_field_error k m rest)"

definition fieldErrors :: "issue list \<Rightarrow> (string \<times> string list) list" where
  "fieldErrors issues =
     foldl (\<lambda>acc i. case issue_path i of [] \<Rightarrow> acc | k # ks \<Rightarrow> add_field_error k (issue_message i) acc)
       [] issues"


section \<open>Effects of a server action\<close>

text \<open>
  The statements sent through \<^verbatim>\<open>sql\<close>, with their parameters in the order of the
  template: \<^verbatim>\<open>INSERT INTO invoices (customer_id, amount, status, date) VALUES (...)\<close>,
  \<^verbatim>\<open>UPDATE invoices SET customer_id = .., amount = .., status = .. WHERE id = ..\<close> and
  \<^verbatim>\<open>DELETE FROM invoices WHERE id = ..\<close>.
\<close>

datatype query =
    INSERT_invoices jsval jsval jsval jsval
  | UPDATE_invoices jsval jsval jsval jsval
  | DELETE_invoices jsval

text \<open>What can be thrown: the validation error of \<^verbatim>\<open>parse\<close>, an error of the
  database client (with its text), and the control-flow signal by which
  \<^verbatim>\<open>redirect\<close> leaves the action.\<close>

datatype error = ZodError "issue list" | StoreError string | NEXT_REDIRECT string

text \<open>The value an action returns: the source's \<^verbatim>\<open>State\<close>, with both fields
  optional.\<close>

record State =
  errors :: "(string \<times> string list) list option"
  message :: "string option"

text \<open>How a statement completes: normally, by \<^verbatim>\<open>return\<close>, or by a throw. An action
  that completes normally has returned \<^verbatim>\<open>undefined\<close>.\<close>

datatype completion = Next | Return State | Throw error

text \<open>
  What an action does is recorded in order: the statements sent to the database and
  whether they went through, the errors written by \<^verbatim>\<open>console.error\<close>, the paths
  given to \<^verbatim>\<open>revalidatePath\<close> and \<^verbatim>\<open>redirect\<close>. Entering a \<^verbatim>\<open>try\<close> block
  and leaving it, normally or into its \<^verbatim>\<open>catch\<close> clause, is recorded too, so that
  the trace tells what ran inside the block.
\<close>

datatype event =
    SqlOk query
  | SqlError query string
  | ConsoleError error
  | RevalidatePath string
  | Redirect string
  | TryEnter
  | TryExit
  | Caught error

record 'db world =
  db :: 'db
  trace :: "event list"

text \<open>The database: a statement either raises an error, given by its text, or yields
  the next state of the database.\<close>

type_synonym 'db store = "query \<Rightarrow> 'db \<Rightarrow> string + 'db"

type_synonym 'db stmt = "'db world \<Rightarrow> completion \<times> 'db world"

definition emit :: "event \<Rightarrow> 'db world \<Rightarrow> 'db world" where
  "emit ev w = w\<lparr>trace := trace w @ [ev]\<rparr>"

definition sql :: "'db store \<Rightarrow> query \<Rightarrow> 'db stmt" where
  "sql exec q w =
     (case exec q (db w) of
        Inl e \<Rightarrow> (Throw (StoreError e), emit (SqlError q e) w)
      | Inr d \<Rightarrow> (Next, emit (SqlOk q) (w\<lparr>db := d\<rparr>)))"

definition console_error :: "error \<Rightarrow> 'db stmt" where
  "console_error e w = (Next, emit (ConsoleError e) w)"

definition revalidatePath :: "string \<Rightarrow> 'db stmt" where
  "revalidatePath p w = (Next, emit (RevalidatePath p) w)"

text \<open>\<^verbatim>\<open>redirect\<close> works by throwing.\<close>

definition redirect :: "string \<Rightarrow> 'db stmt" where
  "redirect p w = (Throw (NEXT_REDIRECT p), emit (Redirect p) w)"

definition return :: "State \<Rightarrow> 'db stmt" where
  "return st w = (Return st, w)"

definition throw :: "error \<Rightarrow> 'db stmt" where
  "throw e w = (Throw e, w)"

text \<open>Two statements in sequence: the second runs when the first completes normally.\<close>

definition seq :: "'db stmt \<Rightarrow> 'db stmt \<Rightarrow> 'db stmt" where
  "seq a b w = (case a w of (Next, w') \<Rightarrow> b w' | (c, w') \<Rightarrow> (c, w'))"

text \<open>\<^verbatim>\<open>try { body } catch (error) { handler }\<close>: whatever the body throws, the
  \<^verbatim>\<open>redirect\<close> signal included, goes to the handler.\<close>

definition try_catch :: "'db stmt \<Rightarrow> (error \<Rightarrow> 'db stmt) \<Rightarrow> 'db stmt" where
  "try_catch body handler w =
     (case body (emit TryEnter w) of
        (Throw e, w') \<Rightarrow> handler e (emit (Caught e) w')
      | (c, w') \<Rightarrow> (c, emit TryExit w'))"

text \<open>\<^verbatim>\<open>new Date().toISOString().split('T')[0]\<close>, where the clock is given by the
  string \<open>now\<close> that \<^verbatim>\<open>toISOString\<close> returns: the part before the first \<^verbatim>\<open>T\<close>.\<close>

definition split_T_0 :: "string \<Rightarrow> string" where
  "split_T_0 now = takeWhile (\<lambda>c. c \<noteq> CHR ''T'') now"

definition hundred :: jsval where
  "hundred = Num (Fin 25 2)"


section \<open>The actions with form validation (\<^verbatim>\<open>src/unnamed/part_004\<close>)\<close>

definition FormSchema :: shape where
  "FormSchema =
     [(''id'', ZodString None),
      (''customerId'', ZodString (Some ''Please select a customer.'')),
      (''amount'', ZodCoerceNumber [Gt (Fin 0 0) ''Please enter an amount greater than $0.'']),
      (''status'', ZodEnum [''pending'', ''paid''] (Some ''Please select an invoice status.'')),
      (''date'', ZodString None)]"

definition CreateInvoice :: shape where
  "CreateInvoice = omit FormSchema [''id'', ''date'']"

definition UpdateInvoice :: shape where
  "UpdateInvoice = omit FormSchema [''id'', ''date'']"

text \<open>The object literal handed to the schema.\<close>

definition rawFormData :: "FormData \<Rightarrow> object" where
  "rawFormData formData =
     [(''customerId'', formData_get formData ''customerId''),
      (''amount'', formData_get formData ''amount''),
      (''status'', formData_get formData ''status'')]"

definition createInvoice :: "'db store \<Rightarrow> string \<Rightarrow> State \<Rightarrow> FormData \<Rightarrow> 'db stmt" where
  "createInvoice exec now prevState formData =
     (case safeParse CreateInvoice (rawFormData formData) of
        Inl issues \<Rightarrow>
          return \<lparr>errors = Some (fieldErrors issues),
                  message = Some ''Missing Fields. Failed to Create Invoice.''\<rparr>
      | Inr data \<Rightarrow>
          (let customerId = get_prop data ''customerId'';
               amount = get_prop data ''amount'';
               status = get_prop data ''status'';
               amountInCents = js_times amount hundred;
               date = Str (split_T_0 now)
           in seq (try_catch (sql exec (INSERT_invoices customerId amountInCents status date))
                     (\<lambda>error. seq (console_error error) (throw error)))
                (seq (revalidatePath ''/dashboard/invoices'')
                   (redirect ''/dashboard/invoices''))))"

definition updateInvoice :: "'db store \<Rightarrow> string \<Rightarrow> FormData \<Rightarrow> 'db stmt" where
  "updateInvoice exec id' formData =
     seq (try_catch
            (case safeParse UpdateInvoice (rawFormData formData) of
               Inl issues \<Rightarrow> throw (ZodError issues)
             | Inr data \<Rightarrow>
                 (let customerId = get_prop data ''customerId'';
                      amount = get_prop data ''amount'';
                      status = get_prop data ''status'';
                      amountInCents = js_times amount hundred
                  in sql exec (UPDATE_invoices customerId amountInCents status (Str id'))))
            (\<lambda>error. seq (console_error error) (throw error)))
       (seq (revalidatePath ''/dashboard/invoices'')
          (redirect ''/dashboard/invoices''))"

definition deleteInvoice :: "'db store \<Rightarrow> string \<Rightarrow> 'db stmt" where
  "deleteInvoice exec id' =
     try_catch
       (seq (sql exec (DELETE_invoices (Str id')))
          (revalidatePath ''/dashboard/invoices''))
       (\<lambda>err. seq (console_error err) (throw err))"


section \<open>The earlier actions (\<^verbatim>\<open>src/unnamed/part_003\<close>)\<close>

text \<open>The same three actions before form validation was added: the schema has no
  messages of its own and no bound on the amount, and every \<^verbatim>\<open>catch\<close> clause
  returns a message. They carry the suffix \<open>_003\<close> of their file.\<close>

definition FormSchema_003 :: shape where
  "FormSchema_003 =
     [(''id'', ZodString None),
      (''customerId'', ZodString None),
      (''amount'', ZodCoerceNumber []),
      (''status'', ZodEnum [''pending'', ''paid''] None),
      (''date'', ZodString None)]"

definition CreateInvoice_003 :: shape where
  "CreateInvoice_003 = omit FormSchema_003 [''id'', ''date'']"

definition UpdateInvoice_003 :: shape where
  "UpdateInvoice_003 = omit FormSchema_003 [''id'', ''date'']"

definition createInvoice_003 :: "'db store \<Rightarrow> string \<Rightarrow> FormData \<Rightarrow> 'db stmt" where
  "createInvoice_003 exec now formData =
     seq (try_catch
            (case safeParse CreateInvoice_003 (rawFormData formData) of
               Inl issues \<Rightarrow> throw (ZodError issues)
             | Inr data \<Rightarrow>
                 (let customerId = get_prop data ''customerId'';
                      amount = get_prop data ''amount'';
                      status = get_prop data ''status'';
                      amountInCents = js_times amount hundred;
                      date = Str (split_T_0 now)
                  in sql exec (INSERT_invoices customerId amountInCents status date)))
            (\<lambda>error. seq (console_error error)
                        (return \<lparr>errors = None,
                                 message = Some ''Database Error: Failed to Create Invoice.''\<rparr>)))
       (seq (revalidatePath ''/dashboard/invoices'')
          (redirect ''/dashboard/invoices''))"

definition updateInvoice_003 :: "'db store \<Rightarrow> string \<Rightarrow> FormData \<Rightarrow> 'db stmt" where
  "updateInvoice_003 exec id' formData =
     seq (try_catch
            (case safeParse UpdateInvoice_003 (rawFormData formData) of
               Inl issues \<Rightarrow> throw (ZodError issues)
             | Inr data \<Rightarrow>
                 (let customerId = get_prop data ''customerId'';
                      amount = get_prop data ''amount'';
                      status = get_prop data ''status'';
                      amountInCents = js_times amount hundred
                  in sql exec (UPDATE_invoices customerId amountInCents status (Str id'))))
            (\<lambda>error. seq (console_error error)
                        (return \<lparr>errors = None,
                                 message = Some ''Database Error: Failed to Update Invoice.''\<rparr>)))
       (seq (revalidatePath ''/dashboard/invoices'')
          (redirect ''/dashboard/invoices''))"

definition deleteInvoice_003 :: "'db store \<Rightarrow> string \<Rightarrow> 'db stmt" where
  "deleteInvoice_003 exec id' =
     try_catch
       (seq (sql exec (DELETE_invoices (Str id')))
          (seq (revalidatePath ''/dashboard/invoices'')
             (return \<lparr>errors = None, message = Some ''Invoice deleted successfully.''\<rparr>)))
       (\<lambda>err. seq (console_error err)
                  (return \<lparr>errors = None,
                           message = Some ''Database Error: Failed to Delete Invoice.''\<rparr>))"


section \<open>A relational store\<close>

text \<open>
  The table \<^verbatim>\<open>invoices\<close> as the three statements see it: rows with an \<^verbatim>\<open>id\<close> and
  the four columns written by the actions. \<^verbatim>\<open>INSERT\<close> adds a row under an identifier
  the server generates (\<open>gen\<close>), \<^verbatim>\<open>UPDATE\<close> and \<^verbatim>\<open>DELETE\<close> act on the rows
  whose \<^verbatim>\<open>id\<close> equals the parameter, which may be none. The types of the columns are
  not enforced: a row keeps the values it was given.
\<close>

record invoice_row =
  row_id :: jsval
  row_customer_id :: jsval
  row_amount :: jsval
  row_status :: jsval
  row_date :: jsval

fun pg_exec :: "(invoice_row list \<Rightarrow> jsval) \<Rightarrow> invoice_row list store" where
  "pg_exec gen (INSERT_invoices c a s d) t =
     Inr (t @ [\<lparr>row_id = gen t, row_customer_id = c, row_amount = a, row_status = s, row_date = d\<rparr>])"
| "pg_exec gen (UPDATE_invoices c a s i) t =
     Inr (map (\<lambda>r. if row_id r = i
                    then r\<lparr>row_customer_id := c, row_amount := a, row_status := s\<rparr>
                    else r) t)"
| "pg_exec gen (DELETE_invoices i) t = Inr (filter (\<lambda>r. row_id r \<noteq> i) t)"

text \<open>A store that is down: every statement raises the same error.\<close>

definition failing_store :: "string \<Rightarrow> 'db store" where
  "failing_store e q d = Inl e"


section \<open>Which fields of a submission are invalid\<close>

text \<open>
  What the schema of \<^verbatim>\<open>part_004\<close> asks of each field, stated on the submitted form
  itself: \<^verbatim>\<open>customerId\<close> is a string, \<^verbatim>\<open>amount\<close> converts to a number greater
  than zero, \<^verbatim>\<open>status\<close> is one of the two enumerated strings. The schema of
  \<^verbatim>\<open>part_003\<close> asks the same but for the bound on the amount.
\<close>

definition customerId_invalid :: "FormData \<Rightarrow> bool" where
  "customerId_invalid formData =
     (case formData_get formData ''customerId'' of Str s \<Rightarrow> False | _ \<Rightarrow> True)"

definition amount_invalid :: "FormData \<Rightarrow> bool" where
  "amount_invalid formData =
     (let n = Number (formData_get formData ''amount'') in n = NaN \<or> js_le n (Fin 0 0))"

definition amount_invalid_003 :: "FormData \<Rightarrow> bool" where
  "amount_invalid_003 formData = (Number (formData_get formData ''amount'') = NaN)"

definition status_invalid :: "FormData \<Rightarrow> bool" where
  "status_invalid formData =
     (formData_get formData ''status'' \<notin> set [Str ''pending'', Str ''paid''])"

definition invalid_fields :: "FormData \<Rightarrow> string list" where
  "invalid_fields formData =
     (if customerId_invalid formData then [''customerId''] else []) @
     (if amount_invalid formData then [''amount''] else []) @
     (if status_invalid formData then [''status''] else [])"

definition invalid_fields_003 :: "FormData \<Rightarrow> string list" where
  "invalid_fields_003 formData =
     (if customerId_invalid formData then [''customerId''] else []) @
     (if amount_invalid_003 formData then [''amount''] else []) @
     (if status_invalid formData then [''status''] else [])"

text \<open>The statements a valid submission leads to: the validated fields, the amount
  multiplied by a hundred, and for a new invoice the date.\<close>

definition insert_of :: "string \<Rightarrow> FormData \<Rightarrow> query" where
  "insert_of now formData =
     INSERT_invoices (formData_get formData ''customerId'')
       (js_times (Num (Number (formData_get formData ''amount''))) hundred)
       (formData_get formData ''status'')
       (Str (split_T_0 now))"

definition update_of :: "string \<Rightarrow> FormData \<Rightarrow> query" where
  "update_of id' formData =
     UPDATE_invoices (formData_get formData ''customerId'')
       (js_times (Num (Number (formData_get formData ''amount''))) hundred)
       (formData_get formData ''status'')
       (Str id')"

text \<open>The events an action added to the trace.\<close>

definition new_events :: "'db world \<Rightarrow> 'db world \<Rightarrow> event list" where
  "new_events w w' = drop (length (trace w)) (trace w')"

text \<open>
  A trace keeps the signals in their place when every \<^verbatim>\<open>revalidatePath\<close> and
  \<^verbatim>\<open>redirect\<close> in it comes outside of any \<^verbatim>\<open>try\<close> block (depth \<open>0\<close>), after a
  statement that went through, and with no failed statement or caught error since.
\<close>

fun signals_in_place :: "nat \<Rightarrow> bool \<Rightarrow> event list \<Rightarrow> bool" where
  "signals_in_place d ok [] = True"
| "signals_in_place d ok (TryEnter # es) = signals_in_place (Suc d) ok es"
| "signals_in_place d ok (TryExit # es) = signals_in_place (d - 1) ok es"
| "signals_in_place d ok (Caught e # es) = signals_in_place (d - 1) False es"
| "signals_in_place d ok (SqlOk q # es) = signals_in_place d True es"
| "signals_in_place d ok (SqlError q e # es) = signals_in_place d False es"
| "signals_in_place d ok (ConsoleError e # es) = signals_in_place d ok es"
| "signals_in_place d ok (RevalidatePath p # es) = (d = 0 \<and> ok \<and> signals_in_place d ok es)"
| "signals_in_place d ok (Redirect p # es) = (d = 0 \<and> ok \<and> signals_in_place d ok es)"

fun is_signal :: "event \<Rightarrow> bool" where
  "is_signal (RevalidatePath p) = True"
| "is_signal (Redirect p) = True"
| "is_signal _ = False"

fun is_failed_write :: "event \<Rightarrow> bool" where
  "is_failed_write (SqlError q e) = True"
| "is_failed_write _ = False"

text \<open>
  An action keeps its signals in order when it only adds to the trace, the signals it
  adds are in their place, and it adds none when a statement has failed.
\<close>

definition signals_disciplined :: "'db world \<Rightarrow> 'db world \<Rightarrow> bool" where
  "signals_disciplined w w' =
     (take (length (trace w)) (trace w') = trace w \<and>
      signals_in_place 0 False (new_events w w') \<and>
      (list_ex is_failed_write (new_events w w') \<longrightarrow> \<not> list_ex is_signal (new_events w w')))"

text \<open>Date stamps. A template describes a string character by character: \<^verbatim>\<open>d\<close>
  stands for a decimal digit, any other character for itself.\<close>

fun matches_template :: "string \<Rightarrow> string \<Rightarrow> bool" where
  "matches_template [] [] = True"
| "matches_template (t # ts) (c # cs) =
     ((if t = CHR ''d'' then is_digit 10 c else c = t) \<and> matches_template ts cs)"
| "matches_template _ _ = False"

definition iso_template :: string where
  "iso_template = ''dddd-dd-ddTdd:dd:dd.dddZ''"

definition ymd_template :: string where
  "ymd_template = ''dddd-dd-dd''"


text \<open>The data a valid submission parses to.\<close>

definition parsed :: "FormData \<Rightarrow> object" where
  "parsed formData =
     [(''customerId'', formData_get formData ''customerId''),
      (''amount'', Num (Number (formData_get formData ''amount''))),
      (''status'', formData_get formData ''status'')]"

text \<open>An identifier generator that always answers \<open>v\<close>, for stores whose generated
  identifiers do not matter.\<close>

definition const_gen :: "jsval \<Rightarrow> invoice_row list \<Rightarrow> jsval" where
  "const_gen v t = v"


section \<open>Parsing a submission\<close>

lemma formData_get_defined: "formData_get fd k \<noteq> Undefined"
  by (auto simp: formData_get_def split: option.splits form_entry.splits elim: entry_value.elims)

lemma CreateInvoice_shape:
  "CreateInvoice =
     [(''customerId'', ZodString (Some ''Please select a customer.'')),
      (''amount'', ZodCoerceNumber [Gt (Fin 0 0) ''Please enter an amount greater than $0.'']),
      (''status'', ZodEnum [''pending'', ''paid''] (Some ''Please select an invoice status.''))]"
  by (simp add: CreateInvoice_def FormSchema_def omit_def)

lemma UpdateInvoice_shape: "UpdateInvoice = CreateInvoice"
  by (simp add: CreateInvoice_def UpdateInvoice_def)

lemma CreateInvoice_003_shape:
  "CreateInvoice_003 =
     [(''customerId'', ZodString None), (''amount'', ZodCoerceNumber []),
      (''status'', ZodEnum [''pending'', ''paid''] None)]"
  by (simp add: CreateInvoice_003_def FormSchema_003_def omit_def)

lemma UpdateInvoice_003_shape: "UpdateInvoice_003 = CreateInvoice_003"
  by (simp add: CreateInvoice_003_def UpdateInvoice_003_def)

lemma get_prop_raw:
  "get_prop (rawFormData fd) ''customerId'' = formData_get fd ''customerId''"
  "get_prop (rawFormData fd) ''amount'' = formData_get fd ''amount''"
  "get_prop (rawFormData fd) ''status'' = formData_get fd ''status''"
  by (simp_all add: get_prop_def rawFormData_def)

lemma parsed_props:
  "get_prop (parsed fd) ''customerId'' = formData_get fd ''customerId''"
  "get_prop (parsed fd) ''amount'' = Num (Number (formData_get fd ''amount''))"
  "get_prop (parsed fd) ''status'' = formData_get fd ''status''"
  by (simp_all add: get_prop_def parsed_def)

lemma safeParse_CreateInvoice_valid:
  "invalid_fields fd = [] \<Longrightarrow> safeParse CreateInvoice (rawFormData fd) = Inr (parsed fd)"
  unfolding CreateInvoice_shape parsed_def
  by (auto simp: safeParse_def get_prop_raw invalid_fields_def customerId_invalid_def
      amount_invalid_def status_invalid_def Let_def split: if_splits jsval.splits)

lemma safeParse_CreateInvoice_invalid:
  "invalid_fields fd \<noteq> [] \<Longrightarrow>
   \<exists>issues. safeParse CreateInvoice (rawFormData fd) = Inl issues \<and>
     map fst (fieldErrors issues) = invalid_fields fd \<and>
     (\<forall>k \<in> set (invalid_fields fd). \<exists>m. map_of (fieldErrors issues) k = Some [m]) \<and>
     map issue_path issues = map (\<lambda>k. [k]) (invalid_fields fd)"
  unfolding CreateInvoice_shape
  using formData_get_defined[of fd "''customerId''"] formData_get_defined[of fd "''status''"]
  by (auto simp: safeParse_def get_prop_raw invalid_fields_def customerId_invalid_def
      amount_invalid_def status_invalid_def Let_def fieldErrors_def invalid_type_message_def
      split: if_splits jsval.splits)

lemma safeParse_CreateInvoice_003_valid:
  "invalid_fields_003 fd = [] \<Longrightarrow> safeParse CreateInvoice_003 (rawFormData fd) = Inr (parsed fd)"
  unfolding CreateInvoice_003_shape parsed_def
  by (auto simp: safeParse_def get_prop_raw invalid_fields_003_def customerId_invalid_def
      amount_invalid_003_def status_invalid_def Let_def split: if_splits jsval.splits)

lemma safeParse_CreateInvoice_003_invalid:
  "invalid_fields_003 fd \<noteq> [] \<Longrightarrow>
   \<exists>issues. safeParse CreateInvoice_003 (rawFormData fd) = Inl issues \<and>
     map issue_path issues = map (\<lambda>k. [k]) (invalid_fields_003 fd)"
  unfolding CreateInvoice_003_shape
  by (auto simp: safeParse_def get_prop_raw invalid_fields_003_def customerId_invalid_def
      amount_invalid_003_def status_invalid_def Let_def
      split: if_splits jsval.splits)

lemma invalid_fields_003_subset:
  "invalid_fields fd = [] \<Longrightarrow> invalid_fields_003 fd = []"
  by (auto simp: invalid_fields_def invalid_fields_003_def amount_invalid_def
      amount_invalid_003_def Let_def split: if_splits)


section \<open>What each action does, case by case\<close>

lemmas stmt_defs =
  seq_def try_catch_def sql_def emit_def revalidatePath_def redirect_def console_error_def
  throw_def return_def

lemma createInvoice_invalid:
  assumes "invalid_fields fd \<noteq> []"
  shows "\<exists>m. createInvoice exec now prev fd w =
              (Return \<lparr>errors = Some m,
                       message = Some ''Missing Fields. Failed to Create Invoice.''\<rparr>, w) \<and>
            map fst m = invalid_fields fd \<and>
            (\<forall>k \<in> set (invalid_fields fd). \<exists>msg. map_of m k = Some [msg])"
proof -
  from safeParse_CreateInvoice_invalid[OF assms] obtain issues where
    p: "safeParse CreateInvoice (rawFormData fd) = Inl issues" and
    k: "map fst (fieldErrors issues) = invalid_fields fd" and
    m: "\<forall>k \<in> set (invalid_fields fd). \<exists>m. map_of (fieldErrors issues) k = Some [m]"
    by blast
  have "createInvoice exec now prev fd w =
          (Return \<lparr>errors = Some (fieldErrors issues),
                   message = Some ''Missing Fields. Failed to Create Invoice.''\<rparr>, w)"
    by (simp add: createInvoice_def p return_def)
  with k m show ?thesis by blast
qed

lemma createInvoice_ok:
  assumes "invalid_fields fd = []" and "exec (insert_of now fd) (db w) = Inr d"
  shows "createInvoice exec now prev fd w =
           (Throw (NEXT_REDIRECT ''/dashboard/invoices''),
            w\<lparr>db := d,
              trace := trace w @ [TryEnter, SqlOk (insert_of now fd), TryExit,
                 RevalidatePath ''/dashboard/invoices'', Redirect ''/dashboard/invoices'']\<rparr>)"
  using assms(2)
  by (simp add: createInvoice_def safeParse_CreateInvoice_valid[OF assms(1)] parsed_props
      insert_of_def[symmetric] stmt_defs)

lemma createInvoice_fail:
  assumes "invalid_fields fd = []" and "exec (insert_of now fd) (db w) = Inl e"
  shows "createInvoice exec now prev fd w =
           (Throw (StoreError e),
            w\<lparr>trace := trace w @ [TryEnter, SqlError (insert_of now fd) e,
                 Caught (StoreError e), ConsoleError (StoreError e)]\<rparr>)"
  using assms(2)
  by (simp add: createInvoice_def safeParse_CreateInvoice_valid[OF assms(1)] parsed_props
      insert_of_def[symmetric] stmt_defs)

lemma updateInvoice_invalid:
  assumes "invalid_fields fd \<noteq> []"
  shows "\<exists>issues. updateInvoice exec id' fd w =
              (Throw (ZodError issues),
               w\<lparr>trace := trace w @ [TryEnter, Caught (ZodError issues),
                    ConsoleError (ZodError issues)]\<rparr>) \<and>
            map issue_path issues = map (\<lambda>k. [k]) (invalid_fields fd)"
proof -
  from safeParse_CreateInvoice_invalid[OF assms] obtain issues where
    p: "safeParse CreateInvoice (rawFormData fd) = Inl issues" and
    k: "map issue_path issues = map (\<lambda>k. [k]) (invalid_fields fd)"
    by blast
  have "updateInvoice exec id' fd w =
          (Throw (ZodError issues),
           w\<lparr>trace := trace w @ [TryEnter, Caught (ZodError issues),
                ConsoleError (ZodError issues)]\<rparr>)"
    by (simp add: updateInvoice_def UpdateInvoice_shape p stmt_defs)
  with k show ?thesis by blast
qed

lemma updateInvoice_ok:
  assumes "invalid_fields fd = []" and "exec (update_of id' fd) (db w) = Inr d"
  shows "updateInvoice exec id' fd w =
           (Throw (NEXT_REDIRECT ''/dashboard/invoices''),
            w\<lparr>db := d,
              trace := trace w @ [TryEnter, SqlOk (update_of id' fd), TryExit,
                 RevalidatePath ''/dashboard/invoices'', Redirect ''/dashboard/invoices'']\<rparr>)"
  using assms(2)
  by (simp add: updateInvoice_def UpdateInvoice_shape
      safeParse_CreateInvoice_valid[OF assms(1)] parsed_props update_of_def[symmetric] stmt_defs)

lemma updateInvoice_fail:
  assumes "invalid_fields fd = []" and "exec (update_of id' fd) (db w) = Inl e"
  shows "updateInvoice exec id' fd w =
           (Throw (StoreError e),
            w\<lparr>trace := trace w @ [TryEnter, SqlError (update_of id' fd) e,
                 Caught (StoreError e), ConsoleError (StoreError e)]\<rparr>)"
  using assms(2)
  by (simp add: updateInvoice_def UpdateInvoice_shape
      safeParse_CreateInvoice_valid[OF assms(1)] parsed_props update_of_def[symmetric] stmt_defs)

lemma deleteInvoice_ok:
  assumes "exec (DELETE_invoices (Str id')) (db w) = Inr d"
  shows "deleteInvoice exec id' w =
           (Next,
            w\<lparr>db := d,
              trace := trace w @ [TryEnter, SqlOk (DELETE_invoices (Str id')),
                 RevalidatePath ''/dashboard/invoices'', TryExit]\<rparr>)"
  using assms by (simp add: deleteInvoice_def stmt_defs)

lemma deleteInvoice_fail:
  assumes "exec (DELETE_invoices (Str id')) (db w) = Inl e"
  shows "deleteInvoice exec id' w =
           (Throw (StoreError e),
            w\<lparr>trace := trace w @ [TryEnter, SqlError (DELETE_invoices (Str id')) e,
                 Caught (StoreError e), ConsoleError (StoreError e)]\<rparr>)"
  using assms by (simp add: deleteInvoice_def stmt_defs)

lemma createInvoice_003_invalid:
  assumes "invalid_fields_003 fd \<noteq> []"
  shows "\<exists>issues. createInvoice_003 exec now fd w =
              (Return \<lparr>errors = None,
                       message = Some ''Database Error: Failed to Create Invoice.''\<rparr>,
               w\<lparr>trace := trace w @ [TryEnter, Caught (ZodError issues),
                    ConsoleError (ZodError issues)]\<rparr>)"
proof -
  from safeParse_CreateInvoice_003_invalid[OF assms] obtain issues where
    p: "safeParse CreateInvoice_003 (rawFormData fd) = Inl issues"
    by blast
  have "createInvoice_003 exec now fd w =
          (Return \<lparr>errors = None, message = Some ''Database Error: Failed to Create Invoice.''\<rparr>,
           w\<lparr>trace := trace w @ [TryEnter, Caught (ZodError issues),
                ConsoleError (ZodError issues)]\<rparr>)"
    by (simp add: createInvoice_003_def p stmt_defs)
  then show ?thesis by blast
qed

lemma createInvoice_003_ok:
  assumes "invalid_fields_003 fd = []" and "exec (insert_of now fd) (db w) = Inr d"
  shows "createInvoice_003 exec now fd w =
           (Throw (NEXT_REDIRECT ''/dashboard/invoices''),
            w\<lparr>db := d,
              trace := trace w @ [TryEnter, SqlOk (insert_of now fd), TryExit,
                 RevalidatePath ''/dashboard/invoices'', Redirect ''/dashboard/invoices'']\<rparr>)"
  using assms(2)
  by (simp add: createInvoice_003_def safeParse_CreateInvoice_003_valid[OF assms(1)] parsed_props
      insert_of_def[symmetric] stmt_defs)

lemma createInvoice_003_fail:
  assumes "invalid_fields_003 fd = []" and "exec (insert_of now fd) (db w) = Inl e"
  shows "createInvoice_003 exec now fd w =
           (Return \<lparr>errors = None,
                    message = Some ''Database Error: Failed to Create Invoice.''\<rparr>,
            w\<lparr>trace := trace w @ [TryEnter, SqlError (insert_of now fd) e,
                 Caught (StoreError e), ConsoleError (StoreError e)]\<rparr>)"
  using assms(2)
  by (simp add: createInvoice_003_def safeParse_CreateInvoice_003_valid[OF assms(1)] parsed_props
      insert_of_def[symmetric] stmt_defs)

lemma updateInvoice_003_invalid:
  assumes "invalid_fields_003 fd \<noteq> []"
  shows "\<exists>issues. updateInvoice_003 exec id' fd w =
              (Return \<lparr>errors = None,
                       message = Some ''Database Error: Failed to Update Invoice.''\<rparr>,
               w\<lparr>trace := trace w @ [TryEnter, Caught (ZodError issues),
                    ConsoleError (ZodError issues)]\<rparr>)"
proof -
  from safeParse_CreateInvoice_003_invalid[OF assms] obtain issues where
    p: "safeParse CreateInvoice_003 (rawFormData fd) = Inl issues"
    by blast
  have "updateInvoice_003 exec id' fd w =
          (Return \<lparr>errors = None, message = Some ''Database Error: Failed to Update Invoice.''\<rparr>,
           w\<lparr>trace := trace w @ [TryEnter, Caught (ZodError issues),
                ConsoleError (ZodError issues)]\<rparr>)"
    by (simp add: updateInvoice_003_def UpdateInvoice_003_shape p stmt_defs)
  then show ?thesis by blast
qed

lemma updateInvoice_003_ok:
  assumes "invalid_fields_003 fd = []" and "exec (update_of id' fd) (db w) = Inr d"
  shows "updateInvoice_003 exec id' fd w =
           (Throw (NEXT_REDIRECT ''/dashboard/invoices''),
            w\<lparr>db := d,
              trace := trace w @ [TryEnter, SqlOk (update_of id' fd), TryExit,
                 RevalidatePath ''/dashboard/invoices'', Redirect ''/dashboard/invoices'']\<rparr>)"
  using assms(2)
  by (simp add: updateInvoice_003_def UpdateInvoice_003_shape
      safeParse_CreateInvoice_003_valid[OF assms(1)] parsed_props update_of_def[symmetric]
      stmt_defs)

lemma updateInvoice_003_fail:
  assumes "invalid_fields_003 fd = []" and "exec (update_of id' fd) (db w) = Inl e"
  shows "updateInvoice_003 exec id' fd w =
           (Return \<lparr>errors = None,
                    message = Some ''Database Error: Failed to Update Invoice.''\<rparr>,
            w\<lparr>trace := trace w @ [TryEnter, SqlError (update_of id' fd) e,
                 Caught (StoreError e), ConsoleError (StoreError e)]\<rparr>)"
  using assms(2)
  by (simp add: updateInvoice_003_def UpdateInvoice_003_shape
      safeParse_CreateInvoice_003_valid[OF assms(1)] parsed_props update_of_def[symmetric]
      stmt_defs)

lemma deleteInvoice_003_ok:
  assumes "exec (DELETE_invoices (Str id')) (db w) = Inr d"
  shows "deleteInvoice_003 exec id' w =
           (Return \<lparr>errors = None, message = Some ''Invoice deleted successfully.''\<rparr>,
            w\<lparr>db := d,
              trace := trace w @ [TryEnter, SqlOk (DELETE_invoices (Str id')),
                 RevalidatePath ''/dashboard/invoices'', TryExit]\<rparr>)"
  using assms by (simp add: deleteInvoice_003_def stmt_defs)

lemma deleteInvoice_003_fail:
  assumes "exec (DELETE_invoices (Str id')) (db w) = Inl e"
  shows "deleteInvoice_003 exec id' w =
           (Return \<lparr>errors = None,
                    message = Some ''Database Error: Failed to Delete Invoice.''\<rparr>,
            w\<lparr>trace := trace w @ [TryEnter, SqlError (DELETE_invoices (Str id')) e,
                 Caught (StoreError e), ConsoleError (StoreError e)]\<rparr>)"
  using assms by (simp add: deleteInvoice_003_def stmt_defs)


section \<open>The events an action adds\<close>

lemma new_events_append [simp]:
  "new_events w (w\<lparr>trace := trace w @ xs\<rparr>) = xs"
  "new_events w (w\<lparr>db := d, trace := trace w @ xs\<rparr>) = xs"
  "new_events w w = []"
  by (simp_all add: new_events_def)

lemma signals_disciplined_append:
  "signals_disciplined w (w\<lparr>trace := trace w @ xs\<rparr>) =
     (signals_in_place 0 False xs \<and> (list_ex is_failed_write xs \<longrightarrow> \<not> list_ex is_signal xs))"
  "signals_disciplined w (w\<lparr>db := d, trace := trace w @ xs\<rparr>) =
     (signals_in_place 0 False xs \<and> (list_ex is_failed_write xs \<longrightarrow> \<not> list_ex is_signal xs))"
  "signals_disciplined w w"
  by (simp_all add: signals_disciplined_def)

lemma createInvoice_disciplined:
  "signals_disciplined w (snd (createInvoice exec now prev fd w))"
proof (cases "invalid_fields fd = []")
  case False
  from createInvoice_invalid[OF False, of exec now prev w]
  show ?thesis by (auto simp: signals_disciplined_append)
next
  case True
  show ?thesis
  proof (cases "exec (insert_of now fd) (db w)")
    case (Inl e)
    show ?thesis
      by (simp add: createInvoice_fail[where exec = exec and w = w, OF True Inl] signals_disciplined_append)
  next
    case (Inr d)
    show ?thesis
      by (simp add: createInvoice_ok[where exec = exec and w = w, OF True Inr] signals_disciplined_append)
  qed
qed

lemma updateInvoice_disciplined:
  "signals_disciplined w (snd (updateInvoice exec id' fd w))"
proof (cases "invalid_fields fd = []")
  case False
  from updateInvoice_invalid[OF False, of exec id' w]
  show ?thesis by (auto simp: signals_disciplined_append)
next
  case True
  show ?thesis
  proof (cases "exec (update_of id' fd) (db w)")
    case (Inl e)
    show ?thesis
      by (simp add: updateInvoice_fail[where exec = exec and w = w, OF True Inl] signals_disciplined_append)
  next
    case (Inr d)
    show ?thesis
      by (simp add: updateInvoice_ok[where exec = exec and w = w, OF True Inr] signals_disciplined_append)
  qed
qed

lemma createInvoice_003_disciplined:
  "signals_disciplined w (snd (createInvoice_003 exec now fd w))"
proof (cases "invalid_fields_003 fd = []")
  case False
  from createInvoice_003_invalid[OF False, of exec now w]
  show ?thesis by (auto simp: signals_disciplined_append)
next
  case True
  show ?thesis
  proof (cases "exec (insert_of now fd) (db w)")
    case (Inl e)
    show ?thesis
      by (simp add: createInvoice_003_fail[where exec = exec and w = w, OF True Inl] signals_disciplined_append)
  next
    case (Inr d)
    show ?thesis
      by (simp add: createInvoice_003_ok[where exec = exec and w = w, OF True Inr] signals_disciplined_append)
  qed
qed

lemma updateInvoice_003_disciplined:
  "signals_disciplined w (snd (updateInvoice_003 exec id' fd w))"
proof (cases "invalid_fields_003 fd = []")
  case False
  from updateInvoice_003_invalid[OF False, of exec id' w]
  show ?thesis by (auto simp: signals_disciplined_append)
next
  case True
  show ?thesis
  proof (cases "exec (update_of id' fd) (db w)")
    case (Inl e)
    show ?thesis
      by (simp add: updateInvoice_003_fail[where exec = exec and w = w, OF True Inl] signals_disciplined_append)
  next
    case (Inr d)
    show ?thesis
      by (simp add: updateInvoice_003_ok[where exec = exec and w = w, OF True Inr] signals_disciplined_append)
  qed
qed


section \<open>Dates and the relational store\<close>

lemma matches_template_Nil: "matches_template [] xs = (xs = [])"
  by (cases xs) simp_all

lemma matches_template_Cons:
  "matches_template (t # ts) xs =
     (\<exists>c cs. xs = c # cs \<and> (if t = CHR ''d'' then is_digit 10 c else c = t) \<and>
        matches_template ts cs)"
  by (cases xs) simp_all

lemma is_digit_not_T: "is_digit 10 c \<Longrightarrow> c \<noteq> CHR ''T''"
  by (auto simp: is_digit_def digit_of_def hex_table_def)

lemma iso_date_part:
  assumes "matches_template iso_template now"
  shows "split_T_0 now = take 10 now \<and> matches_template ymd_template (take 10 now)"
proof -
  from assms obtain y1 y2 y3 y4 m1 m2 d1 d2 rest where
    now: "now = [y1, y2, y3, y4, CHR ''-'', m1, m2, CHR ''-'', d1, d2, CHR ''T''] @ rest" and
    digits: "is_digit 10 y1" "is_digit 10 y2" "is_digit 10 y3" "is_digit 10 y4"
      "is_digit 10 m1" "is_digit 10 m2" "is_digit 10 d1" "is_digit 10 d2"
    unfolding iso_template_def by (auto simp: matches_template_Cons)
  have "split_T_0 now = [y1, y2, y3, y4, CHR ''-'', m1, m2, CHR ''-'', d1, d2]"
    using digits by (simp add: now split_T_0_def is_digit_not_T)
  moreover have "take 10 now = [y1, y2, y3, y4, CHR ''-'', m1, m2, CHR ''-'', d1, d2]"
    by (simp add: now)
  moreover have "matches_template ymd_template [y1, y2, y3, y4, CHR ''-'', m1, m2, CHR ''-'', d1, d2]"
    using digits by (simp add: ymd_template_def)
  ultimately show ?thesis by simp
qed

lemma pg_update_keeps:
  "map row_date (map (\<lambda>r. if row_id r = i
                    then r\<lparr>row_customer_id := c, row_amount := a, row_status := s\<rparr>
                    else r) t) = map row_date t"
  "map row_id (map (\<lambda>r. if row_id r = i
                    then r\<lparr>row_customer_id := c, row_amount := a, row_status := s\<rparr>
                    else r) t) = map row_id t"
  by (induction t) simp_all

lemma pg_delete_missing:
  assumes "i \<notin> row_id ` set t"
  shows "pg_exec gen (DELETE_invoices i) t = Inr t"
proof -
  from assms have "filter (\<lambda>r. row_id r \<noteq> i) t = t"
    by (induction t) auto
  then show ?thesis by simp
qed


section \<open>Sample submissions\<close>

text \<open>Numbers are evaluated by unfolding the conversion and the rounding.\<close>

lemmas number_eval =
  string_to_number_def trim_def is_ws_def signed_decimal_def unsigned_decimal_def is_digit_def
  digit_of_def hex_table_def exponent_part_def digits_val_def dec_to_num_def round_frac_def
  bitlen.simps scaled_div_def scaled_rem_def scaled_num_def scaled_den_def round_even_def
  canon.simps mk_num_def Let_def js_times_def hundred_def js_of_nat_def

text \<open>Known values: \<^verbatim>\<open>0.1\<close> is \<^verbatim>\<open>0x1.999999999999ap-4\<close>, three times it is
  \<^verbatim>\<open>0.30000000000000004\<close>, and \<open>2 ^ 53 + 1\<close>, halfway between two numbers, goes to
  the even one.\<close>

lemma Number_0_1: "string_to_number ''0.1'' = Fin 3602879701896397 (- 55)"
  by (simp add: number_eval)

lemma three_times_0_1:
  "js_mul (Fin 3602879701896397 (- 55)) (Fin 3 0) = Fin 1351079888211149 (- 52)"
  by (simp add: number_eval)

lemma Number_tie_to_even: "string_to_number ''9007199254740993'' = Fin 1 53"
  by (simp add: number_eval)

lemma Number_exponent_and_spaces: "string_to_number ''  1e3 '' = Fin 125 3"
  by (simp add: number_eval all_digits_def)

lemma Number_hex: "string_to_number ''0x1F'' = Fin 31 0"
  by (simp add: number_eval all_digits_def prefixed_integer_def)

lemma Number_not_a_numeral: "string_to_number ''12abc'' = NaN"
  by (simp add: number_eval)

lemma Number_empty: "string_to_number [] = Fin 0 0"
  by (simp add: number_eval)

lemma Number_49_99: "string_to_number ''49.99'' = Fin 7035467042882847 (- 47)"
  by (simp add: number_eval)

lemma times_hundred_49_99:
  "js_times (Num (Fin 7035467042882847 (- 47))) hundred = Num (Fin 4999 0)"
  by (simp add: number_eval)

lemma invalid_fields_49_99:
  "invalid_fields [(''customerId'', Text ''c1''), (''amount'', Text ''49.99''), (''status'', Text ''paid'')] = []"
  by (simp add: invalid_fields_def customerId_invalid_def amount_invalid_def status_invalid_def
      formData_get_def Number_49_99)

lemma insert_of_49_99:
  "insert_of ''2025-12-05T14:30:00.000Z''
     [(''customerId'', Text ''c1''), (''amount'', Text ''49.99''), (''status'', Text ''paid'')] =
   INSERT_invoices (Str ''c1'') (Num (Fin 4999 0)) (Str ''paid'') (Str ''2025-12-05'')"
  by (simp add: insert_of_def formData_get_def Number_49_99 times_hundred_49_99 split_T_0_def)

lemma invalid_fields_003_49_99:
  "invalid_fields_003 [(''customerId'', Text ''c1''), (''amount'', Text ''49.99''), (''status'', Text ''paid'')] = []"
  by (rule invalid_fields_003_subset[OF invalid_fields_49_99])

lemma invalid_fields_empty_form:
  "invalid_fields [] = [''customerId'', ''amount'', ''status'']"
  by (simp add: invalid_fields_def customerId_invalid_def amount_invalid_def status_invalid_def
      formData_get_def)

lemma invalid_fields_003_empty_form:
  "invalid_fields_003 [] = [''customerId'', ''status'']"
  by (simp add: invalid_fields_003_def customerId_invalid_def amount_invalid_003_def
      status_invalid_def formData_get_def)

lemma iso_sample: "matches_template iso_template ''2025-12-05T14:30:00.000Z''"
  by (simp add: iso_template_def is_digit_def digit_of_def hex_table_def)

lemma fieldErrors_amount_too_small:
  assumes "Number (formData_get fd ''amount'') \<noteq> NaN"
    and "js_le (Number (formData_get fd ''amount'')) (Fin 0 0)"
  shows "\<exists>issues. safeParse CreateInvoice (rawFormData fd) = Inl issues \<and>
           map_of (fieldErrors issues) ''amount'' = Some [''Please enter an amount greater than $0.'']"
  unfolding CreateInvoice_shape
  using assms
  by (auto simp: safeParse_def get_prop_raw Let_def fieldErrors_def
      split: if_splits jsval.splits)


section \<open>The claims\<close>

text \<open>
  C1 (amended). A field is invalid when it fails the schema's own check: \<^verbatim>\<open>customerId\<close>
  is not a string (the empty string passes), \<^verbatim>\<open>amount\<close> does not convert to a number
  greater than zero, \<^verbatim>\<open>status\<close> is not one of the two enumerated strings. When one
  or more fields of a submission are invalid, in particular two or more, \<open>createInvoice\<close>
  returns a map of field errors with one entry, under the field's name, for every
  invalid field, and does nothing else. \<open>updateInvoice\<close> returns no such map: inside its
  \<^verbatim>\<open>try\<close> block the validation error is thrown, the \<^verbatim>\<open>catch\<close> clause writes it
  to \<^verbatim>\<open>console.error\<close> and throws it again; the error carries one issue for every
  invalid field, the issues the map of \<open>createInvoice\<close> is made of, and no statement is
  sent and no signal issued.
\<close>

theorem invalid_fields_all_reported:
  assumes "invalid_fields fd \<noteq> []"
  shows "\<exists>issues.
           createInvoice exec now prev fd w =
             (Return \<lparr>errors = Some (fieldErrors issues),
                      message = Some ''Missing Fields. Failed to Create Invoice.''\<rparr>, w) \<and>
           map fst (fieldErrors issues) = invalid_fields fd \<and>
           (\<forall>k \<in> set (invalid_fields fd). \<exists>msg. map_of (fieldErrors issues) k = Some [msg]) \<and>
           updateInvoice exec' id' fd w' =
             (Throw (ZodError issues),
              w'\<lparr>trace := trace w' @ [TryEnter, Caught (ZodError issues),
                    ConsoleError (ZodError issues)]\<rparr>) \<and>
           map issue_path issues = map (\<lambda>k. [k]) (invalid_fields fd)"
proof -
  from safeParse_CreateInvoice_invalid[OF assms] obtain issues where
    p: "safeParse CreateInvoice (rawFormData fd) = Inl issues" and
    k: "map fst (fieldErrors issues) = invalid_fields fd" and
    m: "\<forall>k \<in> set (invalid_fields fd). \<exists>m. map_of (fieldErrors issues) k = Some [m]" and
    q: "map issue_path issues = map (\<lambda>k. [k]) (invalid_fields fd)"
    by blast
  have c: "createInvoice exec now prev fd w =
          (Return \<lparr>errors = Some (fieldErrors issues),
                   message = Some ''Missing Fields. Failed to Create Invoice.''\<rparr>, w)"
    by (simp add: createInvoice_def p return_def)
  have u: "updateInvoice exec' id' fd w' =
          (Throw (ZodError issues),
           w'\<lparr>trace := trace w' @ [TryEnter, Caught (ZodError issues),
                 ConsoleError (ZodError issues)]\<rparr>)"
    by (simp add: updateInvoice_def UpdateInvoice_shape p stmt_defs)
  from c k m u q show ?thesis by blast
qed

lemma invalid_fields_status_only:
  "invalid_fields [(''status'', Text ''paid'')] = [''customerId'', ''amount'']"
  by (simp add: invalid_fields_def customerId_invalid_def amount_invalid_def status_invalid_def
      formData_get_def)

theorem invalid_fields_all_reported_witness:
  "invalid_fields [(''status'', Text ''paid'')] \<noteq> [] \<and>
   createInvoice (failing_store ''down'') ''2025-12-05T14:30:00.000Z''
     \<lparr>errors = None, message = None\<rparr> [(''status'', Text ''paid'')] \<lparr>db = (), trace = []\<rparr> =
     (Return \<lparr>errors = Some [(''customerId'', [''Please select a customer.'']),
                             (''amount'', [''Please enter an amount greater than $0.''])],
              message = Some ''Missing Fields. Failed to Create Invoice.''\<rparr>,
      \<lparr>db = (), trace = []\<rparr>) \<and>
   updateInvoice (failing_store ''down'') ''1'' [(''status'', Text ''paid'')]
     \<lparr>db = (), trace = []\<rparr> =
     (Throw (ZodError
        [Issue invalid_type [''customerId''] ''Please select a customer.'',
         Issue too_small [''amount''] ''Please enter an amount greater than $0.'']),
      \<lparr>db = (),
        trace =
          [TryEnter,
           Caught (ZodError
             [Issue invalid_type [''customerId''] ''Please select a customer.'',
              Issue too_small [''amount''] ''Please enter an amount greater than $0.'']),
           ConsoleError (ZodError
             [Issue invalid_type [''customerId''] ''Please select a customer.'',
              Issue too_small [''amount''] ''Please enter an amount greater than $0.''])]\<rparr>)"
proof -
  let ?fd = "[(''status'', Text ''paid'')]"
  let ?is = "[Issue invalid_type [''customerId''] ''Please select a customer.'',
              Issue too_small [''amount''] ''Please enter an amount greater than $0.'']"
  have v: "invalid_fields ?fd \<noteq> []"
    by (simp add: invalid_fields_status_only)
  from invalid_fields_all_reported[OF v, of "failing_store ''down''"
      "''2025-12-05T14:30:00.000Z''" "\<lparr>errors = None, message = None\<rparr>"
      "\<lparr>db = (), trace = []\<rparr>" "failing_store ''down''" "''1''" "\<lparr>db = (), trace = []\<rparr>"]
  obtain issues where
    c: "createInvoice (failing_store ''down'') ''2025-12-05T14:30:00.000Z''
          \<lparr>errors = None, message = None\<rparr> ?fd \<lparr>db = (), trace = []\<rparr> =
        (Return \<lparr>errors = Some (fieldErrors issues),
                 message = Some ''Missing Fields. Failed to Create Invoice.''\<rparr>,
         \<lparr>db = (), trace = []\<rparr>)" and
    u: "updateInvoice (failing_store ''down'') ''1'' ?fd \<lparr>db = (), trace = []\<rparr> =
        (Throw (ZodError issues),
         \<lparr>db = (), trace = []\<rparr>\<lparr>trace := trace \<lparr>db = (), trace = []\<rparr> @
            [TryEnter, Caught (ZodError issues), ConsoleError (ZodError issues)]\<rparr>)"
    by blast
  have "fst (updateInvoice (failing_store ''down'') ''1'' ?fd \<lparr>db = (), trace = []\<rparr>) =
          Throw (ZodError ?is)"
    by (simp add: updateInvoice_def UpdateInvoice_shape CreateInvoice_shape safeParse_def
        get_prop_raw formData_get_def invalid_type_message_def stmt_defs)
  with u have i: "issues = ?is" by simp
  have f: "fieldErrors ?is =
             [(''customerId'', [''Please select a customer.'']),
              (''amount'', [''Please enter an amount greater than $0.''])]"
    by (simp add: fieldErrors_def)
  from v c u show ?thesis
    unfolding i f by simp
qed

theorem updateInvoice_throws_counterexample:
  "invalid_fields [] = [''customerId'', ''amount'', ''status''] \<and>
   fst (updateInvoice (failing_store ''down'') ''1'' [] \<lparr>db = (), trace = []\<rparr>) =
     Throw (ZodError
       [Issue invalid_type [''customerId''] ''Please select a customer.'',
        Issue too_small [''amount''] ''Please enter an amount greater than $0.'',
        Issue invalid_type [''status''] ''Please select an invoice status.''])"
  by (simp add: invalid_fields_empty_form updateInvoice_def UpdateInvoice_shape
      CreateInvoice_shape safeParse_def get_prop_raw formData_get_def invalid_type_message_def
      stmt_defs)


lemma Number_0_57: "string_to_number ''0.57'' = Fin 5134103575202365 (- 53)"
  by (simp add: number_eval)

lemma times_hundred_0_57:
  "js_times (Num (Fin 5134103575202365 (- 53))) hundred = Num (Fin 8022036836253695 (- 47))"
  by (simp add: number_eval)

lemma js_of_nat_57: "js_of_nat 57 = Fin 57 0"
  by (simp add: number_eval)

lemma invalid_fields_0_57:
  "invalid_fields [(''customerId'', Text ''c1''), (''amount'', Text ''0.57''), (''status'', Text ''paid'')] = []"
  by (simp add: invalid_fields_def customerId_invalid_def amount_invalid_def status_invalid_def
      formData_get_def Number_0_57)

lemma insert_of_0_57:
  "insert_of ''2025-12-05T14:30:00.000Z''
     [(''customerId'', Text ''c1''), (''amount'', Text ''0.57''), (''status'', Text ''paid'')] =
   INSERT_invoices (Str ''c1'') (Num (Fin 8022036836253695 (- 47))) (Str ''paid'')
     (Str ''2025-12-05'')"
  by (simp add: insert_of_def formData_get_def Number_0_57 times_hundred_0_57 split_T_0_def)

text \<open>
  C2. The amount is multiplied by a hundred as a binary64 number and nothing rounds or
  truncates the product. For the amount \<^verbatim>\<open>0.57\<close>, which has two fractional digits,
  the stored value is \<open>8022036836253695 * 2 ^ -47\<close>, that is
  \<^verbatim>\<open>56.99999999999999\<close>: not an integer, and not \<open>57\<close>.
\<close>

theorem createInvoice_cents_not_integer:
  "db (snd (createInvoice (pg_exec (const_gen (Str ''i1''))) ''2025-12-05T14:30:00.000Z''
             \<lparr>errors = None, message = None\<rparr>
             [(''customerId'', Text ''c1''), (''amount'', Text ''0.57''), (''status'', Text ''paid'')]
             \<lparr>db = [], trace = []\<rparr>)) =
     [\<lparr>row_id = Str ''i1'', row_customer_id = Str ''c1'',
       row_amount = Num (Fin 8022036836253695 (- 47)),
       row_status = Str ''paid'', row_date = Str ''2025-12-05''\<rparr>] \<and>
   \<not> js_is_integer (Fin 8022036836253695 (- 47)) \<and>
   Num (Fin 8022036836253695 (- 47)) \<noteq> Num (js_of_nat 57)"
proof -
  let ?fd = "[(''customerId'', Text ''c1''), (''amount'', Text ''0.57''), (''status'', Text ''paid'')]"
  let ?now = "''2025-12-05T14:30:00.000Z''"
  let ?w = "\<lparr>db = ([]::invoice_row list), trace = []\<rparr>"
  have e: "pg_exec (const_gen (Str ''i1'')) (insert_of ?now ?fd) (db ?w) =
             Inr [\<lparr>row_id = Str ''i1'', row_customer_id = Str ''c1'',
                   row_amount = Num (Fin 8022036836253695 (- 47)),
                   row_status = Str ''paid'', row_date = Str ''2025-12-05''\<rparr>]"
    unfolding insert_of_0_57 by (simp add: const_gen_def)
  show ?thesis
    unfolding createInvoice_ok[where exec = "pg_exec (const_gen (Str ''i1''))" and w = ?w,
        OF invalid_fields_0_57 e] js_of_nat_57
    by simp
qed

text \<open>For the amount \<^verbatim>\<open>49.99\<close> the product is the integer \<open>4999\<close>.\<close>

lemma createInvoice_49_99:
  "db (snd (createInvoice (pg_exec (const_gen (Str ''i1''))) ''2025-12-05T14:30:00.000Z''
             \<lparr>errors = None, message = None\<rparr>
             [(''customerId'', Text ''c1''), (''amount'', Text ''49.99''), (''status'', Text ''paid'')]
             \<lparr>db = [], trace = []\<rparr>)) =
     [\<lparr>row_id = Str ''i1'', row_customer_id = Str ''c1'', row_amount = Num (Fin 4999 0),
       row_status = Str ''paid'', row_date = Str ''2025-12-05''\<rparr>]"
proof -
  let ?fd = "[(''customerId'', Text ''c1''), (''amount'', Text ''49.99''), (''status'', Text ''paid'')]"
  let ?now = "''2025-12-05T14:30:00.000Z''"
  let ?w = "\<lparr>db = ([]::invoice_row list), trace = []\<rparr>"
  have e: "pg_exec (const_gen (Str ''i1'')) (insert_of ?now ?fd) (db ?w) =
             Inr [\<lparr>row_id = Str ''i1'', row_customer_id = Str ''c1'',
                   row_amount = Num (Fin 4999 0),
                   row_status = Str ''paid'', row_date = Str ''2025-12-05''\<rparr>]"
    unfolding insert_of_49_99 by (simp add: const_gen_def)
  show ?thesis
    unfolding createInvoice_ok[where exec = "pg_exec (const_gen (Str ''i1''))" and w = ?w,
        OF invalid_fields_49_99 e]
    by simp
qed


text \<open>
  C3 (amended). When the write fails, the earlier actions (\<^verbatim>\<open>part_003\<close>) return a
  fixed message that names the operation, whatever the text of the store's error, and
  the error itself goes to \<^verbatim>\<open>console.error\<close> only. The later actions
  (\<^verbatim>\<open>part_004\<close>) write the error to \<^verbatim>\<open>console.error\<close> and throw it again:
  the caller receives the store's error, text included.
\<close>

theorem store_failure_outcomes:
  "(invalid_fields_003 fd = [] \<and> exec (insert_of now fd) (db w) = Inl e \<longrightarrow>
      fst (createInvoice_003 exec now fd w) =
        Return \<lparr>errors = None, message = Some ''Database Error: Failed to Create Invoice.''\<rparr> \<and>
      ConsoleError (StoreError e) \<in> set (new_events w (snd (createInvoice_003 exec now fd w)))) \<and>
   (invalid_fields_003 fd = [] \<and> exec (update_of id' fd) (db w) = Inl e \<longrightarrow>
      fst (updateInvoice_003 exec id' fd w) =
        Return \<lparr>errors = None, message = Some ''Database Error: Failed to Update Invoice.''\<rparr> \<and>
      ConsoleError (StoreError e) \<in> set (new_events w (snd (updateInvoice_003 exec id' fd w)))) \<and>
   (exec (DELETE_invoices (Str id')) (db w) = Inl e \<longrightarrow>
      fst (deleteInvoice_003 exec id' w) =
        Return \<lparr>errors = None, message = Some ''Database Error: Failed to Delete Invoice.''\<rparr> \<and>
      ConsoleError (StoreError e) \<in> set (new_events w (snd (deleteInvoice_003 exec id' w)))) \<and>
   (invalid_fields fd = [] \<and> exec (insert_of now fd) (db w) = Inl e \<longrightarrow>
      fst (createInvoice exec now prev fd w) = Throw (StoreError e) \<and>
      ConsoleError (StoreError e) \<in> set (new_events w (snd (createInvoice exec now prev fd w)))) \<and>
   (invalid_fields fd = [] \<and> exec (update_of id' fd) (db w) = Inl e \<longrightarrow>
      fst (updateInvoice exec id' fd w) = Throw (StoreError e) \<and>
      ConsoleError (StoreError e) \<in> set (new_events w (snd (updateInvoice exec id' fd w)))) \<and>
   (exec (DELETE_invoices (Str id')) (db w) = Inl e \<longrightarrow>
      fst (deleteInvoice exec id' w) = Throw (StoreError e) \<and>
      ConsoleError (StoreError e) \<in> set (new_events w (snd (deleteInvoice exec id' w))))"
  by (simp add: createInvoice_003_fail updateInvoice_003_fail deleteInvoice_003_fail
      createInvoice_fail updateInvoice_fail deleteInvoice_fail)

theorem store_failure_outcomes_witness:
  "invalid_fields_003 [(''customerId'', Text ''c1''), (''amount'', Text ''49.99''), (''status'', Text ''paid'')] = [] \<and>
   invalid_fields [(''customerId'', Text ''c1''), (''amount'', Text ''49.99''), (''status'', Text ''paid'')] = [] \<and>
   fst (createInvoice_003 (failing_store ''connection refused'') ''2025-12-05T14:30:00.000Z''
          [(''customerId'', Text ''c1''), (''amount'', Text ''49.99''), (''status'', Text ''paid'')]
          \<lparr>db = (), trace = []\<rparr>) =
     Return \<lparr>errors = None, message = Some ''Database Error: Failed to Create Invoice.''\<rparr> \<and>
   fst (updateInvoice_003 (failing_store ''connection refused'') ''i1''
          [(''customerId'', Text ''c1''), (''amount'', Text ''49.99''), (''status'', Text ''paid'')]
          \<lparr>db = (), trace = []\<rparr>) =
     Return \<lparr>errors = None, message = Some ''Database Error: Failed to Update Invoice.''\<rparr> \<and>
   fst (deleteInvoice_003 (failing_store ''connection refused'') ''i1'' \<lparr>db = (), trace = []\<rparr>) =
     Return \<lparr>errors = None, message = Some ''Database Error: Failed to Delete Invoice.''\<rparr> \<and>
   fst (createInvoice (failing_store ''connection refused'') ''2025-12-05T14:30:00.000Z''
          \<lparr>errors = None, message = None\<rparr>
          [(''customerId'', Text ''c1''), (''amount'', Text ''49.99''), (''status'', Text ''paid'')]
          \<lparr>db = (), trace = []\<rparr>) = Throw (StoreError ''connection refused'') \<and>
   fst (updateInvoice (failing_store ''connection refused'') ''i1''
          [(''customerId'', Text ''c1''), (''amount'', Text ''49.99''), (''status'', Text ''paid'')]
          \<lparr>db = (), trace = []\<rparr>) = Throw (StoreError ''connection refused'') \<and>
   fst (deleteInvoice (failing_store ''connection refused'') ''i1'' \<lparr>db = (), trace = []\<rparr>) =
     Throw (StoreError ''connection refused'')"
  using store_failure_outcomes[of
      "[(''customerId'', Text ''c1''), (''amount'', Text ''49.99''), (''status'', Text ''paid'')]"
      "failing_store ''connection refused''" "''2025-12-05T14:30:00.000Z''"
      "\<lparr>db = (), trace = []\<rparr>" "''connection refused''" "''i1''"
      "\<lparr>errors = None, message = None\<rparr>"]
  by (simp add: invalid_fields_003_49_99 invalid_fields_49_99 failing_store_def)

theorem createInvoice_rethrows_counterexample:
  "fst (createInvoice (failing_store ''password authentication failed for user admin'')
          ''2025-12-05T14:30:00.000Z'' \<lparr>errors = None, message = None\<rparr>
          [(''customerId'', Text ''c1''), (''amount'', Text ''49.99''), (''status'', Text ''paid'')]
          \<lparr>db = (), trace = []\<rparr>) =
     Throw (StoreError ''password authentication failed for user admin'')"
  by (simp add: createInvoice_fail[OF invalid_fields_49_99] failing_store_def)


text \<open>
  C4. In every run of \<open>createInvoice\<close> and \<open>updateInvoice\<close>, of either file, each
  \<^verbatim>\<open>revalidatePath\<close> and \<^verbatim>\<open>redirect\<close> comes outside of the \<^verbatim>\<open>try\<close> block,
  after the block was left normally with the write done, and none comes when the write
  has failed. When the write goes through, both signals are issued, in this order,
  after the block, and the signal thrown by \<^verbatim>\<open>redirect\<close> leaves the action.
\<close>

theorem signals_after_write_scope:
  "signals_disciplined w (snd (createInvoice exec now prev fd w)) \<and>
   signals_disciplined w (snd (updateInvoice exec id' fd w)) \<and>
   signals_disciplined w (snd (createInvoice_003 exec now fd w)) \<and>
   signals_disciplined w (snd (updateInvoice_003 exec id' fd w)) \<and>
   (invalid_fields fd = [] \<and> exec (insert_of now fd) (db w) = Inr d \<longrightarrow>
      fst (createInvoice exec now prev fd w) = Throw (NEXT_REDIRECT ''/dashboard/invoices'') \<and>
      new_events w (snd (createInvoice exec now prev fd w)) =
        [TryEnter, SqlOk (insert_of now fd), TryExit,
         RevalidatePath ''/dashboard/invoices'', Redirect ''/dashboard/invoices'']) \<and>
   (invalid_fields fd = [] \<and> exec (update_of id' fd) (db w) = Inr d \<longrightarrow>
      fst (updateInvoice exec id' fd w) = Throw (NEXT_REDIRECT ''/dashboard/invoices'') \<and>
      new_events w (snd (updateInvoice exec id' fd w)) =
        [TryEnter, SqlOk (update_of id' fd), TryExit,
         RevalidatePath ''/dashboard/invoices'', Redirect ''/dashboard/invoices''])"
  by (simp add: createInvoice_disciplined updateInvoice_disciplined
      createInvoice_003_disciplined updateInvoice_003_disciplined
      createInvoice_ok updateInvoice_ok)

theorem signals_after_write_scope_witness:
  "list_ex is_failed_write
     (new_events \<lparr>db = (), trace = []\<rparr>
        (snd (createInvoice (failing_store ''connection refused'') ''2025-12-05T14:30:00.000Z''
                \<lparr>errors = None, message = None\<rparr>
                [(''customerId'', Text ''c1''), (''amount'', Text ''49.99''), (''status'', Text ''paid'')]
                \<lparr>db = (), trace = []\<rparr>))) \<and>
   \<not> list_ex is_signal
     (new_events \<lparr>db = (), trace = []\<rparr>
        (snd (createInvoice (failing_store ''connection refused'') ''2025-12-05T14:30:00.000Z''
                \<lparr>errors = None, message = None\<rparr>
                [(''customerId'', Text ''c1''), (''amount'', Text ''49.99''), (''status'', Text ''paid'')]
                \<lparr>db = (), trace = []\<rparr>))) \<and>
   invalid_fields [(''customerId'', Text ''c1''), (''amount'', Text ''49.99''), (''status'', Text ''paid'')] = [] \<and>
   new_events \<lparr>db = [], trace = []\<rparr>
     (snd (createInvoice (pg_exec (const_gen (Str ''i1''))) ''2025-12-05T14:30:00.000Z''
             \<lparr>errors = None, message = None\<rparr>
             [(''customerId'', Text ''c1''), (''amount'', Text ''49.99''), (''status'', Text ''paid'')]
             \<lparr>db = [], trace = []\<rparr>)) =
     [TryEnter,
      SqlOk (INSERT_invoices (Str ''c1'') (Num (Fin 4999 0)) (Str ''paid'') (Str ''2025-12-05'')),
      TryExit, RevalidatePath ''/dashboard/invoices'', Redirect ''/dashboard/invoices'']"
proof -
  let ?fd = "[(''customerId'', Text ''c1''), (''amount'', Text ''49.99''), (''status'', Text ''paid'')]"
  let ?now = "''2025-12-05T14:30:00.000Z''"
  let ?prev = "\<lparr>errors = None, message = None\<rparr>"
  have f: "failing_store ''connection refused'' (insert_of ?now ?fd) (db \<lparr>db = (), trace = []\<rparr>) =
             Inl ''connection refused''"
    by (simp add: failing_store_def)
  have a: "signals_disciplined \<lparr>db = (), trace = []\<rparr>
             (snd (createInvoice (failing_store ''connection refused'') ?now ?prev ?fd
                     \<lparr>db = (), trace = []\<rparr>))"
    using signals_after_write_scope[of "\<lparr>db = (), trace = []\<rparr>"
        "failing_store ''connection refused''" ?now ?prev ?fd] by blast
  have b: "list_ex is_failed_write
             (new_events \<lparr>db = (), trace = []\<rparr>
                (snd (createInvoice (failing_store ''connection refused'') ?now ?prev ?fd
                        \<lparr>db = (), trace = []\<rparr>)))"
    by (simp add: createInvoice_fail[where exec = "failing_store ''connection refused''",
          OF invalid_fields_49_99 f] new_events_def)
  have e: "pg_exec (const_gen (Str ''i1'')) (insert_of ?now ?fd)
             (db \<lparr>db = ([]::invoice_row list), trace = []\<rparr>) =
           Inr [\<lparr>row_id = Str ''i1'', row_customer_id = Str ''c1'', row_amount = Num (Fin 4999 0),
                 row_status = Str ''paid'', row_date = Str ''2025-12-05''\<rparr>]"
    unfolding insert_of_49_99 by (simp add: const_gen_def)
  have c: "new_events \<lparr>db = [], trace = []\<rparr>
             (snd (createInvoice (pg_exec (const_gen (Str ''i1''))) ?now ?prev ?fd
                     \<lparr>db = [], trace = []\<rparr>)) =
           [TryEnter, SqlOk (insert_of ?now ?fd), TryExit,
            RevalidatePath ''/dashboard/invoices'', Redirect ''/dashboard/invoices'']"
    using signals_after_write_scope[of "\<lparr>db = [], trace = []\<rparr>"
        "pg_exec (const_gen (Str ''i1''))" ?now ?prev ?fd _ _] invalid_fields_49_99 e
    by blast
  from a b have "\<not> list_ex is_signal
     (new_events \<lparr>db = (), trace = []\<rparr>
        (snd (createInvoice (failing_store ''connection refused'') ?now ?prev ?fd
                \<lparr>db = (), trace = []\<rparr>)))"
    unfolding signals_disciplined_def by blast
  with b c invalid_fields_49_99 show ?thesis
    unfolding insert_of_49_99 by blast
qed

text \<open>
  C5. A submission with an invalid field stops \<open>createInvoice\<close> before anything else
  happens: the action returns the field errors, the database is as it was and the trace
  is as it was, so no statement was sent and no signal issued.
\<close>

theorem invalid_submission_no_write:
  assumes "invalid_fields fd \<noteq> []"
  shows "db (snd (createInvoice exec now prev fd w)) = db w \<and>
         new_events w (snd (createInvoice exec now prev fd w)) = [] \<and>
         snd (createInvoice exec now prev fd w) = w \<and>
         (\<exists>m. fst (createInvoice exec now prev fd w) =
                 Return \<lparr>errors = Some m,
                          message = Some ''Missing Fields. Failed to Create Invoice.''\<rparr>)"
  using createInvoice_invalid[OF assms, of exec now prev w] by auto

theorem invalid_submission_no_write_witness:
  "invalid_fields [] \<noteq> [] \<and>
   snd (createInvoice (pg_exec (const_gen (Str ''i1''))) ''2025-12-05T14:30:00.000Z''
          \<lparr>errors = None, message = None\<rparr> [] \<lparr>db = [], trace = []\<rparr>) =
     \<lparr>db = [], trace = []\<rparr>"
  using invalid_submission_no_write[of "[]" "pg_exec (const_gen (Str ''i1''))"
      "''2025-12-05T14:30:00.000Z''" "\<lparr>errors = None, message = None\<rparr>"
      "\<lparr>db = [], trace = []\<rparr>"]
  by (simp add: invalid_fields_empty_form)


text \<open>
  C6. With a clock whose \<^verbatim>\<open>toISOString\<close> reads \<^verbatim>\<open>YYYY-MM-DDTHH:mm:ss.sssZ\<close>
  (any year from 0 to 9999), a successful create on the relational store adds one row
  whose date is the first ten characters of that reading: four digits, a dash, two
  digits, a dash, two digits, and nothing of the time or the zone. A successful update
  sends one statement, which sets \<^verbatim>\<open>customer_id\<close>, \<^verbatim>\<open>amount\<close> and \<^verbatim>\<open>status\<close>
  from the validated fields on the rows whose \<^verbatim>\<open>id\<close> is the identifier the action
  was called with; every row keeps its date and its \<^verbatim>\<open>id\<close>, and no row is added.
\<close>

theorem create_date_update_fields:
  "(matches_template iso_template now \<and> invalid_fields fd = [] \<longrightarrow>
      db (snd (createInvoice (pg_exec gen) now prev fd w)) =
        db w @ [\<lparr>row_id = gen (db w),
                  row_customer_id = formData_get fd ''customerId'',
                  row_amount = js_times (Num (Number (formData_get fd ''amount''))) hundred,
                  row_status = formData_get fd ''status'',
                  row_date = Str (take 10 now)\<rparr>] \<and>
      matches_template ymd_template (take 10 now)) \<and>
   (invalid_fields fd = [] \<longrightarrow>
      new_events w (snd (updateInvoice (pg_exec gen) id' fd w)) =
        [TryEnter,
         SqlOk (UPDATE_invoices (formData_get fd ''customerId'')
                  (js_times (Num (Number (formData_get fd ''amount''))) hundred)
                  (formData_get fd ''status'') (Str id')),
         TryExit, RevalidatePath ''/dashboard/invoices'', Redirect ''/dashboard/invoices''] \<and>
      db (snd (updateInvoice (pg_exec gen) id' fd w)) =
        map (\<lambda>r. if row_id r = Str id'
                  then r\<lparr>row_customer_id := formData_get fd ''customerId'',
                         row_amount := js_times (Num (Number (formData_get fd ''amount''))) hundred,
                         row_status := formData_get fd ''status''\<rparr>
                  else r) (db w) \<and>
      map row_date (db (snd (updateInvoice (pg_exec gen) id' fd w))) = map row_date (db w) \<and>
      map row_id (db (snd (updateInvoice (pg_exec gen) id' fd w))) = map row_id (db w))"
proof (intro conjI impI)
  assume a: "matches_template iso_template now \<and> invalid_fields fd = []"
  let ?row = "\<lparr>row_id = gen (db w),
                  row_customer_id = formData_get fd ''customerId'',
                  row_amount = js_times (Num (Number (formData_get fd ''amount''))) hundred,
                  row_status = formData_get fd ''status'',
                  row_date = Str (take 10 now)\<rparr>"
  from a iso_date_part have d: "split_T_0 now = take 10 now"
    and m: "matches_template ymd_template (take 10 now)"
    by blast+
  have e: "pg_exec gen (insert_of now fd) (db w) = Inr (db w @ [?row])"
    by (simp add: insert_of_def d)
  from a show "db (snd (createInvoice (pg_exec gen) now prev fd w)) = db w @ [?row]"
    by (simp add: createInvoice_ok[where exec = "pg_exec gen" and w = w, OF _ e])
  from m show "matches_template ymd_template (take 10 now)" .
next
  assume v: "invalid_fields fd = []"
  let ?t = "map (\<lambda>r. if row_id r = Str id'
                  then r\<lparr>row_customer_id := formData_get fd ''customerId'',
                         row_amount := js_times (Num (Number (formData_get fd ''amount''))) hundred,
                         row_status := formData_get fd ''status''\<rparr>
                  else r) (db w)"
  have e: "pg_exec gen (update_of id' fd) (db w) = Inr ?t"
    by (simp add: update_of_def)
  note r = updateInvoice_ok[where exec = "pg_exec gen" and w = w, OF v e]
  show "new_events w (snd (updateInvoice (pg_exec gen) id' fd w)) =
        [TryEnter,
         SqlOk (UPDATE_invoices (formData_get fd ''customerId'')
                  (js_times (Num (Number (formData_get fd ''amount''))) hundred)
                  (formData_get fd ''status'') (Str id')),
         TryExit, RevalidatePath ''/dashboard/invoices'', Redirect ''/dashboard/invoices'']"
    by (simp add: r) (simp add: update_of_def)
  show "db (snd (updateInvoice (pg_exec gen) id' fd w)) = ?t"
    by (simp add: r)
  show "map row_date (db (snd (updateInvoice (pg_exec gen) id' fd w))) = map row_date (db w)"
    by (simp add: r pg_update_keeps del: map_map)
  show "map row_id (db (snd (updateInvoice (pg_exec gen) id' fd w))) = map row_id (db w)"
    by (simp add: r pg_update_keeps del: map_map)
qed

theorem create_date_update_fields_witness:
  "matches_template iso_template ''2025-12-05T14:30:00.000Z'' \<and>
   invalid_fields [(''customerId'', Text ''c1''), (''amount'', Text ''49.99''), (''status'', Text ''paid'')] = [] \<and>
   db (snd (createInvoice (pg_exec (const_gen (Str ''i2''))) ''2025-12-05T14:30:00.000Z''
              \<lparr>errors = None, message = None\<rparr>
              [(''customerId'', Text ''c1''), (''amount'', Text ''49.99''), (''status'', Text ''paid'')]
              \<lparr>db = [], trace = []\<rparr>)) =
     [\<lparr>row_id = Str ''i2'', row_customer_id = Str ''c1'', row_amount = Num (Fin 4999 0),
       row_status = Str ''paid'', row_date = Str ''2025-12-05''\<rparr>] \<and>
   db (snd (updateInvoice (pg_exec (const_gen (Str ''i2''))) ''i1''
              [(''customerId'', Text ''c1''), (''amount'', Text ''49.99''), (''status'', Text ''paid''),
               (''id'', Text ''i0'')]
              \<lparr>db = [\<lparr>row_id = Str ''i0'', row_customer_id = Str ''c0'', row_amount = Num (Fin 1 0),
                      row_status = Str ''pending'', row_date = Str ''2024-01-01''\<rparr>,
                    \<lparr>row_id = Str ''i1'', row_customer_id = Str ''c0'', row_amount = Num (Fin 1 0),
                      row_status = Str ''pending'', row_date = Str ''2024-02-02''\<rparr>],
                trace = []\<rparr>)) =
     [\<lparr>row_id = Str ''i0'', row_customer_id = Str ''c0'', row_amount = Num (Fin 1 0),
       row_status = Str ''pending'', row_date = Str ''2024-01-01''\<rparr>,
      \<lparr>row_id = Str ''i1'', row_customer_id = Str ''c1'', row_amount = Num (Fin 4999 0),
       row_status = Str ''paid'', row_date = Str ''2024-02-02''\<rparr>]"
proof -
  let ?fd = "[(''customerId'', Text ''c1''), (''amount'', Text ''49.99''), (''status'', Text ''paid'')]"
  let ?fd' = "[(''customerId'', Text ''c1''), (''amount'', Text ''49.99''), (''status'', Text ''paid''),
               (''id'', Text ''i0'')]"
  have v: "invalid_fields ?fd' = []"
    by (simp add: invalid_fields_def customerId_invalid_def amount_invalid_def status_invalid_def
        formData_get_def Number_49_99)
  have g: "formData_get ?fd ''customerId'' = Str ''c1''" "formData_get ?fd ''status'' = Str ''paid''"
    "Number (formData_get ?fd ''amount'') = Fin 7035467042882847 (- 47)"
    "formData_get ?fd' ''customerId'' = Str ''c1''" "formData_get ?fd' ''status'' = Str ''paid''"
    "Number (formData_get ?fd' ''amount'') = Fin 7035467042882847 (- 47)"
    by (simp_all add: formData_get_def Number_49_99)
  show ?thesis
    using create_date_update_fields[of "''2025-12-05T14:30:00.000Z''" ?fd
        "const_gen (Str ''i2'')" "\<lparr>errors = None, message = None\<rparr>" "\<lparr>db = [], trace = []\<rparr>" "''i1''"]
      create_date_update_fields[of "''2025-12-05T14:30:00.000Z''" ?fd'
        "const_gen (Str ''i2'')" "\<lparr>errors = None, message = None\<rparr>"
        "\<lparr>db = [\<lparr>row_id = Str ''i0'', row_customer_id = Str ''c0'', row_amount = Num (Fin 1 0),
                      row_status = Str ''pending'', row_date = Str ''2024-01-01''\<rparr>,
                    \<lparr>row_id = Str ''i1'', row_customer_id = Str ''c0'', row_amount = Num (Fin 1 0),
                      row_status = Str ''pending'', row_date = Str ''2024-02-02''\<rparr>],
                trace = []\<rparr>" "''i1''"]
    by (simp add: iso_sample invalid_fields_49_99 v g times_hundred_49_99 const_gen_def)
qed


text \<open>
  C7 (amended). Deleting an identifier that no row of the relational store has is a
  delete like any other: the statement goes through, the table is unchanged, the cache
  is invalidated, and the action completes as it does after removing a row, by
  returning nothing in \<^verbatim>\<open>part_004\<close> and the message
  \<^verbatim>\<open>Invoice deleted successfully.\<close> in \<^verbatim>\<open>part_003\<close>. No outcome of the action
  stands for a missing row.
\<close>

theorem delete_missing_completes_as_success:
  assumes "Str id' \<notin> row_id ` set t"
  shows "deleteInvoice (pg_exec gen) id' \<lparr>db = t, trace = tr\<rparr> =
           (Next,
            \<lparr>db = t,
              trace = tr @ [TryEnter, SqlOk (DELETE_invoices (Str id')),
                        RevalidatePath ''/dashboard/invoices'', TryExit]\<rparr>) \<and>
         deleteInvoice_003 (pg_exec gen) id' \<lparr>db = t, trace = tr\<rparr> =
           (Return \<lparr>errors = None, message = Some ''Invoice deleted successfully.''\<rparr>,
            \<lparr>db = t,
              trace = tr @ [TryEnter, SqlOk (DELETE_invoices (Str id')),
                        RevalidatePath ''/dashboard/invoices'', TryExit]\<rparr>)"
proof -
  have e: "pg_exec gen (DELETE_invoices (Str id')) (db \<lparr>db = t, trace = tr\<rparr>) = Inr t"
    using pg_delete_missing[OF assms] by simp
  show ?thesis
    by (simp add: deleteInvoice_ok[where exec = "pg_exec gen", OF e]
        deleteInvoice_003_ok[where exec = "pg_exec gen", OF e])
qed

theorem delete_missing_completes_as_success_witness:
  "Str ''00000000-0000-0000-0000-000000000000'' \<notin> row_id ` set [] \<and>
   deleteInvoice (pg_exec (const_gen Null)) ''00000000-0000-0000-0000-000000000000''
     \<lparr>db = [], trace = []\<rparr> =
     (Next,
      \<lparr>db = [],
        trace = [TryEnter, SqlOk (DELETE_invoices (Str ''00000000-0000-0000-0000-000000000000'')),
                 RevalidatePath ''/dashboard/invoices'', TryExit]\<rparr>)"
  using delete_missing_completes_as_success[of "''00000000-0000-0000-0000-000000000000''" "[]"
      "const_gen Null" "[]"]
  by simp

theorem delete_missing_counterexample:
  "deleteInvoice_003 (pg_exec (const_gen Null)) ''00000000-0000-0000-0000-000000000000''
     \<lparr>db = [], trace = []\<rparr> =
     (Return \<lparr>errors = None, message = Some ''Invoice deleted successfully.''\<rparr>,
      \<lparr>db = [],
        trace = [TryEnter, SqlOk (DELETE_invoices (Str ''00000000-0000-0000-0000-000000000000'')),
                 RevalidatePath ''/dashboard/invoices'', TryExit]\<rparr>) \<and>
   fst (deleteInvoice_003 (pg_exec (const_gen Null)) ''00000000-0000-0000-0000-000000000000''
          \<lparr>db = [], trace = []\<rparr>) =
   fst (deleteInvoice_003 (pg_exec (const_gen Null)) ''00000000-0000-0000-0000-000000000000''
          \<lparr>db = [\<lparr>row_id = Str ''00000000-0000-0000-0000-000000000000'',
                  row_customer_id = Str ''c1'', row_amount = Num (Fin 4999 0),
                  row_status = Str ''paid'', row_date = Str ''2025-12-05''\<rparr>],
            trace = []\<rparr>) \<and>
   fst (deleteInvoice (pg_exec (const_gen Null)) ''00000000-0000-0000-0000-000000000000''
          \<lparr>db = [], trace = []\<rparr>) =
   fst (deleteInvoice (pg_exec (const_gen Null)) ''00000000-0000-0000-0000-000000000000''
          \<lparr>db = [\<lparr>row_id = Str ''00000000-0000-0000-0000-000000000000'',
                  row_customer_id = Str ''c1'', row_amount = Num (Fin 4999 0),
                  row_status = Str ''paid'', row_date = Str ''2025-12-05''\<rparr>],
            trace = []\<rparr>)"
  by (simp add: deleteInvoice_003_def deleteInvoice_def stmt_defs)

text \<open>
  C8. When the delete goes through, \<open>deleteInvoice\<close> of either file invalidates the
  cache of \<^verbatim>\<open>/dashboard/invoices\<close> and issues no redirect: the action completes
  normally or by returning its message, never by the signal of \<^verbatim>\<open>redirect\<close>. A
  create or an update that goes through does issue the redirect.
\<close>

theorem delete_revalidates_without_redirect:
  "(exec (DELETE_invoices (Str id')) (db w) = Inr d \<longrightarrow>
      new_events w (snd (deleteInvoice exec id' w)) =
        [TryEnter, SqlOk (DELETE_invoices (Str id')),
         RevalidatePath ''/dashboard/invoices'', TryExit] \<and>
      fst (deleteInvoice exec id' w) = Next \<and>
      new_events w (snd (deleteInvoice_003 exec id' w)) =
        [TryEnter, SqlOk (DELETE_invoices (Str id')),
         RevalidatePath ''/dashboard/invoices'', TryExit] \<and>
      fst (deleteInvoice_003 exec id' w) =
        Return \<lparr>errors = None, message = Some ''Invoice deleted successfully.''\<rparr>) \<and>
   (invalid_fields fd = [] \<and> exec (insert_of now fd) (db w) = Inr d \<longrightarrow>
      Redirect ''/dashboard/invoices'' \<in> set (new_events w (snd (createInvoice exec now prev fd w)))) \<and>
   (invalid_fields fd = [] \<and> exec (update_of id' fd) (db w) = Inr d \<longrightarrow>
      Redirect ''/dashboard/invoices'' \<in> set (new_events w (snd (updateInvoice exec id' fd w))))"
  by (simp add: deleteInvoice_ok deleteInvoice_003_ok createInvoice_ok updateInvoice_ok)

theorem delete_revalidates_without_redirect_witness:
  "pg_exec (const_gen Null) (DELETE_invoices (Str ''i1''))
     (db \<lparr>db = [\<lparr>row_id = Str ''i1'', row_customer_id = Str ''c1'', row_amount = Num (Fin 4999 0),
                  row_status = Str ''paid'', row_date = Str ''2025-12-05''\<rparr>], trace = []\<rparr>) = Inr [] \<and>
   new_events
     \<lparr>db = [\<lparr>row_id = Str ''i1'', row_customer_id = Str ''c1'', row_amount = Num (Fin 4999 0),
             row_status = Str ''paid'', row_date = Str ''2025-12-05''\<rparr>], trace = []\<rparr>
     (snd (deleteInvoice (pg_exec (const_gen Null)) ''i1''
             \<lparr>db = [\<lparr>row_id = Str ''i1'', row_customer_id = Str ''c1'', row_amount = Num (Fin 4999 0),
                     row_status = Str ''paid'', row_date = Str ''2025-12-05''\<rparr>], trace = []\<rparr>)) =
     [TryEnter, SqlOk (DELETE_invoices (Str ''i1'')), RevalidatePath ''/dashboard/invoices'', TryExit] \<and>
   invalid_fields [(''customerId'', Text ''c1''), (''amount'', Text ''49.99''), (''status'', Text ''paid'')] = [] \<and>
   Redirect ''/dashboard/invoices'' \<in> set (new_events \<lparr>db = [], trace = []\<rparr>
     (snd (createInvoice (pg_exec (const_gen (Str ''i1''))) ''2025-12-05T14:30:00.000Z''
             \<lparr>errors = None, message = None\<rparr>
             [(''customerId'', Text ''c1''), (''amount'', Text ''49.99''), (''status'', Text ''paid'')]
             \<lparr>db = [], trace = []\<rparr>)))"
proof -
  let ?w = "\<lparr>db = [\<lparr>row_id = Str ''i1'', row_customer_id = Str ''c1'', row_amount = Num (Fin 4999 0),
                  row_status = Str ''paid'', row_date = Str ''2025-12-05''\<rparr>], trace = []\<rparr>"
  let ?fd = "[(''customerId'', Text ''c1''), (''amount'', Text ''49.99''), (''status'', Text ''paid'')]"
  have e: "pg_exec (const_gen Null) (DELETE_invoices (Str ''i1'')) (db ?w) = Inr []"
    by simp
  have i: "pg_exec (const_gen (Str ''i1'')) (insert_of ''2025-12-05T14:30:00.000Z'' ?fd)
             (db \<lparr>db = ([]::invoice_row list), trace = []\<rparr>) =
           Inr [\<lparr>row_id = Str ''i1'', row_customer_id = Str ''c1'', row_amount = Num (Fin 4999 0),
                 row_status = Str ''paid'', row_date = Str ''2025-12-05''\<rparr>]"
    unfolding insert_of_49_99 by (simp add: const_gen_def)
  from delete_revalidates_without_redirect[where exec = "pg_exec (const_gen Null)"
      and id' = "''i1''" and w = ?w and d = "[]"] e
  have a: "new_events ?w (snd (deleteInvoice (pg_exec (const_gen Null)) ''i1'' ?w)) =
        [TryEnter, SqlOk (DELETE_invoices (Str ''i1'')),
         RevalidatePath ''/dashboard/invoices'', TryExit]"
    by blast
  from delete_revalidates_without_redirect[where exec = "pg_exec (const_gen (Str ''i1''))"
      and w = "\<lparr>db = ([]::invoice_row list), trace = []\<rparr>" and fd = ?fd
      and now = "''2025-12-05T14:30:00.000Z''" and prev = "\<lparr>errors = None, message = None\<rparr>"] i
    invalid_fields_49_99
  have b: "Redirect ''/dashboard/invoices'' \<in> set (new_events \<lparr>db = [], trace = []\<rparr>
     (snd (createInvoice (pg_exec (const_gen (Str ''i1''))) ''2025-12-05T14:30:00.000Z''
             \<lparr>errors = None, message = None\<rparr> ?fd \<lparr>db = [], trace = []\<rparr>)))"
    by blast
  from e a b invalid_fields_49_99 show ?thesis by blast
qed

text \<open>
  C9. When the form has no \<^verbatim>\<open>amount\<close> entry, \<^verbatim>\<open>formData.get\<close> gives
  \<^verbatim>\<open>null\<close>, which converts to the number \<open>0\<close>; \<open>createInvoice\<close> rejects the
  submission, and the only error under \<^verbatim>\<open>amount\<close> is the message of the bound,
  \<^verbatim>\<open>Please enter an amount greater than $0.\<close>
\<close>

theorem missing_amount_reported_as_not_positive:
  assumes "map_of fd ''amount'' = None"
  shows "formData_get fd ''amount'' = Null \<and>
         Number (formData_get fd ''amount'') = Fin 0 0 \<and>
         (\<exists>m. createInvoice exec now prev fd w =
                 (Return \<lparr>errors = Some m,
                          message = Some ''Missing Fields. Failed to Create Invoice.''\<rparr>, w) \<and>
               map_of m ''amount'' = Some [''Please enter an amount greater than $0.''])"
proof -
  from assms have n: "formData_get fd ''amount'' = Null"
    by (simp add: formData_get_def)
  then have "Number (formData_get fd ''amount'') \<noteq> NaN"
    and "js_le (Number (formData_get fd ''amount'')) (Fin 0 0)"
    by simp_all
  from fieldErrors_amount_too_small[OF this] obtain issues where
    p: "safeParse CreateInvoice (rawFormData fd) = Inl issues" and
    m: "map_of (fieldErrors issues) ''amount'' = Some [''Please enter an amount greater than $0.'']"
    by blast
  have "createInvoice exec now prev fd w =
          (Return \<lparr>errors = Some (fieldErrors issues),
                   message = Some ''Missing Fields. Failed to Create Invoice.''\<rparr>, w)"
    by (simp add: createInvoice_def p return_def)
  with n m show ?thesis by simp
qed

theorem missing_amount_reported_as_not_positive_witness:
  "map_of [(''customerId'', Text ''c1''), (''status'', Text ''paid'')] ''amount'' = None \<and>
   createInvoice (pg_exec (const_gen (Str ''i1''))) ''2025-12-05T14:30:00.000Z''
     \<lparr>errors = None, message = None\<rparr>
     [(''customerId'', Text ''c1''), (''status'', Text ''paid'')] \<lparr>db = [], trace = []\<rparr> =
     (Return \<lparr>errors = Some [(''amount'', [''Please enter an amount greater than $0.''])],
              message = Some ''Missing Fields. Failed to Create Invoice.''\<rparr>,
      \<lparr>db = [], trace = []\<rparr>)"
proof -
  let ?fd = "[(''customerId'', Text ''c1''), (''status'', Text ''paid'')]"
  have a: "map_of ?fd ''amount'' = None" by simp
  have i: "invalid_fields ?fd = [''amount'']"
    by (simp add: invalid_fields_def customerId_invalid_def amount_invalid_def status_invalid_def
        formData_get_def)
  from missing_amount_reported_as_not_positive[OF a, of "pg_exec (const_gen (Str ''i1''))"
      "''2025-12-05T14:30:00.000Z''" "\<lparr>errors = None, message = None\<rparr>" "\<lparr>db = [], trace = []\<rparr>"]
  obtain m where
    r: "createInvoice (pg_exec (const_gen (Str ''i1''))) ''2025-12-05T14:30:00.000Z''
          \<lparr>errors = None, message = None\<rparr> ?fd \<lparr>db = [], trace = []\<rparr> =
        (Return \<lparr>errors = Some m, message = Some ''Missing Fields. Failed to Create Invoice.''\<rparr>,
         \<lparr>db = [], trace = []\<rparr>)" and
    m: "map_of m ''amount'' = Some [''Please enter an amount greater than $0.'']"
    by blast
  from createInvoice_invalid[of ?fd "pg_exec (const_gen (Str ''i1''))"
      "''2025-12-05T14:30:00.000Z''" "\<lparr>errors = None, message = None\<rparr>" "\<lparr>db = [], trace = []\<rparr>"] i r
  have "map fst m = [''amount'']" by auto
  then obtain ms where "m = [(''amount'', ms)]"
    by (cases m) auto
  with m have "m = [(''amount'', [''Please enter an amount greater than $0.''])]" by simp
  with a r show ?thesis by simp
qed

text \<open>
  C10. In \<^verbatim>\<open>part_003\<close> the schema is parsed inside the \<^verbatim>\<open>try\<close> block of the
  write. For a submission that fails the schema, \<open>createInvoice\<close> enters the block, the
  error of the parse is caught by the block's \<^verbatim>\<open>catch\<close> clause and written to
  \<^verbatim>\<open>console.error\<close>, no statement is sent, and the action returns the message
  \<^verbatim>\<open>Database Error: Failed to Create Invoice.\<close> with no field errors. That is the
  value the same clause returns when the write of a valid submission fails: the two
  runs differ in what is caught and written to the console, not in what the caller
  receives.
\<close>

theorem createInvoice_003_validation_as_database_error:
  assumes "invalid_fields_003 fd \<noteq> []"
  shows "\<exists>issues.
           safeParse CreateInvoice_003 (rawFormData fd) = Inl issues \<and>
           map issue_path issues = map (\<lambda>k. [k]) (invalid_fields_003 fd) \<and>
           createInvoice_003 exec now fd w =
             (Return \<lparr>errors = None,
                      message = Some ''Database Error: Failed to Create Invoice.''\<rparr>,
              w\<lparr>trace := trace w @ [TryEnter, Caught (ZodError issues),
                   ConsoleError (ZodError issues)]\<rparr>) \<and>
           db (snd (createInvoice_003 exec now fd w)) = db w \<and>
           (invalid_fields_003 fd' = [] \<and> exec' (insert_of now' fd') (db w') = Inl e \<longrightarrow>
              createInvoice_003 exec' now' fd' w' =
                (Return \<lparr>errors = None,
                         message = Some ''Database Error: Failed to Create Invoice.''\<rparr>,
                 w'\<lparr>trace := trace w' @ [TryEnter, SqlError (insert_of now' fd') e,
                       Caught (StoreError e), ConsoleError (StoreError e)]\<rparr>) \<and>
              fst (createInvoice_003 exec' now' fd' w') = fst (createInvoice_003 exec now fd w))"
proof -
  from safeParse_CreateInvoice_003_invalid[OF assms] obtain issues where
    p: "safeParse CreateInvoice_003 (rawFormData fd) = Inl issues" and
    q: "map issue_path issues = map (\<lambda>k. [k]) (invalid_fields_003 fd)"
    by blast
  have r: "createInvoice_003 exec now fd w =
          (Return \<lparr>errors = None, message = Some ''Database Error: Failed to Create Invoice.''\<rparr>,
           w\<lparr>trace := trace w @ [TryEnter, Caught (ZodError issues),
                ConsoleError (ZodError issues)]\<rparr>)"
    by (simp add: createInvoice_003_def p stmt_defs)
  have d: "db (snd (createInvoice_003 exec now fd w)) = db w"
    by (simp add: r)
  have f: "invalid_fields_003 fd' = [] \<and> exec' (insert_of now' fd') (db w') = Inl e \<longrightarrow>
              createInvoice_003 exec' now' fd' w' =
                (Return \<lparr>errors = None,
                         message = Some ''Database Error: Failed to Create Invoice.''\<rparr>,
                 w'\<lparr>trace := trace w' @ [TryEnter, SqlError (insert_of now' fd') e,
                       Caught (StoreError e), ConsoleError (StoreError e)]\<rparr>) \<and>
              fst (createInvoice_003 exec' now' fd' w') = fst (createInvoice_003 exec now fd w)"
    by (simp add: r createInvoice_003_fail)
  from p q r d f show ?thesis by blast
qed

lemma invalid_fields_003_no_customer:
  "invalid_fields_003 [(''amount'', Text ''49.99''), (''status'', Text ''paid'')] = [''customerId'']"
  by (simp add: invalid_fields_003_def customerId_invalid_def amount_invalid_003_def
      status_invalid_def formData_get_def Number_49_99)

lemma safeParse_003_no_customer:
  "safeParse CreateInvoice_003 (rawFormData [(''amount'', Text ''49.99''), (''status'', Text ''paid'')]) =
     Inl [Issue invalid_type [''customerId''] ''Expected string, received null'']"
  by (simp add: CreateInvoice_003_shape safeParse_def get_prop_raw formData_get_def
      invalid_type_message_def Number_49_99)

theorem createInvoice_003_validation_as_database_error_witness:
  "invalid_fields_003 [(''amount'', Text ''49.99''), (''status'', Text ''paid'')] \<noteq> [] \<and>
   invalid_fields_003 [(''customerId'', Text ''c1''), (''amount'', Text ''49.99''), (''status'', Text ''paid'')] = [] \<and>
   createInvoice_003 (pg_exec (const_gen (Str ''i1''))) ''2025-12-05T14:30:00.000Z''
     [(''amount'', Text ''49.99''), (''status'', Text ''paid'')] \<lparr>db = [], trace = []\<rparr> =
     (Return \<lparr>errors = None, message = Some ''Database Error: Failed to Create Invoice.''\<rparr>,
      \<lparr>db = [],
        trace =
          [TryEnter,
           Caught (ZodError [Issue invalid_type [''customerId''] ''Expected string, received null'']),
           ConsoleError
             (ZodError [Issue invalid_type [''customerId''] ''Expected string, received null''])]\<rparr>) \<and>
   createInvoice_003 (failing_store ''connection refused'') ''2025-12-05T14:30:00.000Z''
     [(''customerId'', Text ''c1''), (''amount'', Text ''49.99''), (''status'', Text ''paid'')]
     \<lparr>db = (), trace = []\<rparr> =
     (Return \<lparr>errors = None, message = Some ''Database Error: Failed to Create Invoice.''\<rparr>,
      \<lparr>db = (),
        trace =
          [TryEnter,
           SqlError (INSERT_invoices (Str ''c1'') (Num (Fin 4999 0)) (Str ''paid'') (Str ''2025-12-05''))
             ''connection refused'',
           Caught (StoreError ''connection refused''),
           ConsoleError (StoreError ''connection refused'')]\<rparr>)"
proof -
  let ?fd = "[(''amount'', Text ''49.99''), (''status'', Text ''paid'')]"
  let ?fd' = "[(''customerId'', Text ''c1''), (''amount'', Text ''49.99''), (''status'', Text ''paid'')]"
  let ?now = "''2025-12-05T14:30:00.000Z''"
  have v: "invalid_fields_003 ?fd \<noteq> []"
    by (simp add: invalid_fields_003_no_customer)
  have e: "failing_store ''connection refused'' (insert_of ?now ?fd') (db \<lparr>db = (), trace = []\<rparr>) =
             Inl ''connection refused''"
    by (simp add: failing_store_def)
  from createInvoice_003_validation_as_database_error[OF v,
      where exec = "pg_exec (const_gen (Str ''i1''))" and now = ?now
        and w = "\<lparr>db = ([]::invoice_row list), trace = []\<rparr>" and fd' = ?fd'
        and exec' = "failing_store ''connection refused''" and now' = ?now
        and w' = "\<lparr>db = (), trace = []\<rparr>" and e = "''connection refused''"]
    invalid_fields_003_49_99 e
  obtain issues where
    p: "safeParse CreateInvoice_003 (rawFormData ?fd) = Inl issues" and
    r: "createInvoice_003 (pg_exec (const_gen (Str ''i1''))) ?now ?fd \<lparr>db = [], trace = []\<rparr> =
          (Return \<lparr>errors = None, message = Some ''Database Error: Failed to Create Invoice.''\<rparr>,
           \<lparr>db = [], trace = []\<rparr>\<lparr>trace := trace \<lparr>db = ([]::invoice_row list), trace = []\<rparr> @
              [TryEnter, Caught (ZodError issues), ConsoleError (ZodError issues)]\<rparr>)" and
    f: "createInvoice_003 (failing_store ''connection refused'') ?now ?fd' \<lparr>db = (), trace = []\<rparr> =
          (Return \<lparr>errors = None, message = Some ''Database Error: Failed to Create Invoice.''\<rparr>,
           \<lparr>db = (), trace = []\<rparr>\<lparr>trace := trace \<lparr>db = (), trace = []\<rparr> @
              [TryEnter, SqlError (insert_of ?now ?fd') ''connection refused'',
               Caught (StoreError ''connection refused''),
               ConsoleError (StoreError ''connection refused'')]\<rparr>)"
    by blast
  from p have i: "issues = [Issue invalid_type [''customerId''] ''Expected string, received null'']"
    by (simp add: safeParse_003_no_customer)
  from v invalid_fields_003_49_99 r f show ?thesis
    unfolding i insert_of_49_99 by simp
qed


end
